theory Spec2Isabelle
  imports Main
begin

section \<open>Values of a loaded scan document\<close>

text \<open>
  \<open>load_ort_results\<close> hands the program whatever \<open>yaml.safe_load\<close> built from the
  analyzer result file: \<open>None\<close>, booleans, integers, floats, strings, lists and
  dicts, nested at will. The program never computes with a float; it only tests its
  truth value and prints it, so a float is kept as these two observations (whether it
  is nonzero, and the text of its \<open>repr\<close>). A dict is the list of its items in
  insertion order. Characters are HOL's 8-bit \<open>char\<close>, one per code point.
  Timestamps, binary scalars and sets are not part of the model, nor are the cyclic
  values that YAML aliases can build, nor a nesting deeper than the recursion limit
  of the interpreter.
\<close>

datatype pyval =
    PNone
  | PBool bool
  | PInt int
  | PFloat bool string
  | PStr string
  | PList "pyval list"
  | PDict "(pyval \<times> pyval) list"

text \<open>
  Exceptions are values: the class and the message that \<open>str(e)\<close> gives. The classes
  that the program's own operations raise have a constructor each; \<open>OtherError c m\<close>
  is an exception of any other class, named \<open>c\<close>.
\<close>

datatype py_error =
    AttributeError string
  | TypeError string
  | IndexError string
  | ValueError string
  | UnicodeEncodeError string
  | OtherError string string

fun exc_str :: "py_error \<Rightarrow> string" where
  "exc_str (AttributeError m) = m"
| "exc_str (TypeError m) = m"
| "exc_str (IndexError m) = m"
| "exc_str (ValueError m) = m"
| "exc_str (UnicodeEncodeError m) = m"
| "exc_str (OtherError c m) = m"

text \<open>
  What \<open>except Exception\<close> catches: every class but those that derive from
  \<open>BaseException\<close> directly (an interrupt from the keyboard, an exit of the
  interpreter, the closing of a generator, a cancellation).
\<close>

definition outside_exception :: "string list" where
  "outside_exception =
     [''BaseException'', ''KeyboardInterrupt'', ''SystemExit'', ''GeneratorExit'',
      ''CancelledError'']"

fun is_exception :: "py_error \<Rightarrow> bool" where
  "is_exception (OtherError c m) = (c \<notin> set outside_exception)"
| "is_exception e = True"

text \<open>Sequencing of two steps either of which may raise.\<close>

definition bind_exc :: "py_error + 'a \<Rightarrow> ('a \<Rightarrow> py_error + 'b) \<Rightarrow> py_error + 'b" where
  "bind_exc m f = (case m of Inl e \<Rightarrow> Inl e | Inr x \<Rightarrow> f x)"

fun type_name :: "pyval \<Rightarrow> string" where
  "type_name PNone = ''NoneType''"
| "type_name (PBool b) = ''bool''"
| "type_name (PInt i) = ''int''"
| "type_name (PFloat nz r) = ''float''"
| "type_name (PStr s) = ''str''"
| "type_name (PList xs) = ''list''"
| "type_name (PDict kvs) = ''dict''"

definition quoted :: "string \<Rightarrow> string" where
  "quoted s = [CHR 0x27] @ s @ [CHR 0x27]"

definition no_attribute :: "pyval \<Rightarrow> string \<Rightarrow> py_error" where
  "no_attribute v a =
     AttributeError (quoted (type_name v) @ '' object has no attribute '' @ quoted a)"

subsection \<open>The built-in operations the program applies to loaded values\<close>

text \<open>\<open>v.get(k, d)\<close> with a string key: only a dict has the method.\<close>

fun py_get :: "pyval \<Rightarrow> string \<Rightarrow> pyval \<Rightarrow> py_error + pyval" where
  "py_get (PDict kvs) k d = Inr (case map_of kvs (PStr k) of Some v \<Rightarrow> v | None \<Rightarrow> d)"
| "py_get v k d = Inl (no_attribute v ''get'')"

text \<open>The truth value of \<open>v\<close> in a condition.\<close>

fun truthy :: "pyval \<Rightarrow> bool" where
  "truthy PNone = False"
| "truthy (PBool b) = b"
| "truthy (PInt i) = (i \<noteq> 0)"
| "truthy (PFloat nz r) = nz"
| "truthy (PStr s) = (s \<noteq> [])"
| "truthy (PList xs) = (xs \<noteq> [])"
| "truthy (PDict kvs) = (kvs \<noteq> [])"

text \<open>\<open>len(v)\<close>: strings, lists and dicts have a length, every other value raises.\<close>

fun py_len :: "pyval \<Rightarrow> py_error + nat" where
  "py_len (PStr s) = Inr (length s)"
| "py_len (PList xs) = Inr (length xs)"
| "py_len (PDict kvs) = Inr (length kvs)"
| "py_len v = Inl (TypeError (''object of type '' @ quoted (type_name v) @ '' has no len()''))"

subsection \<open>Text of a value\<close>

text \<open>
  Decimal digits of a number, as \<open>str\<close> of an \<open>int\<close> prints them (the digit table
  also serves the two hexadecimal digits of an escaped character).
\<close>

definition digit :: "nat \<Rightarrow> char" where
  "digit n = ''0123456789abcdef'' ! n"

fun nat_str :: "nat \<Rightarrow> string" where
  "nat_str n = (if n < 10 then [digit n] else nat_str (n div 10) @ [digit (n mod 10)])"

definition int_str :: "int \<Rightarrow> string" where
  "int_str i = (if i < 0 then ''-'' @ nat_str (nat (- i)) else nat_str (nat i))"

text \<open>
  \<open>repr\<close> of a string: single quotes unless the text holds a single quote and no
  double quote; the quote in use and the backslash are escaped, tab, newline and
  carriage return have their letters, and the characters that are not printable
  appear as \<open>\xhh\<close>.
\<close>

definition backslash :: char where
  "backslash = CHR 0x5C"

definition printable :: "char \<Rightarrow> bool" where
  "printable c = (let n = (of_char c :: nat) in 32 \<le> n \<and> n < 127 \<or> 160 < n \<and> n \<noteq> 173)"

definition repr_char :: "char \<Rightarrow> char \<Rightarrow> string" where
  "repr_char q c =
     (if c = q \<or> c = backslash then [backslash, c]
      else if c = CHR 0x09 then [backslash, CHR ''t'']
      else if c = CHR 0x0A then [backslash, CHR ''n'']
      else if c = CHR 0x0D then [backslash, CHR ''r'']
      else if printable c then [c]
      else [backslash, CHR ''x'', digit (of_char c div 16), digit (of_char c mod 16)])"

definition repr_str :: "string \<Rightarrow> string" where
  "repr_str s =
     (let q = (if CHR 0x27 \<in> set s \<and> CHR 0x22 \<notin> set s then CHR 0x22 else CHR 0x27)
      in [q] @ concat (map (repr_char q) s) @ [q])"

fun join :: "string \<Rightarrow> string list \<Rightarrow> string" where
  "join sep [] = []"
| "join sep [x] = x"
| "join sep (x # y # ys) = x @ sep @ join sep (y # ys)"

fun py_repr :: "pyval \<Rightarrow> string" where
  "py_repr PNone = ''None''"
| "py_repr (PBool b) = (if b then ''True'' else ''False'')"
| "py_repr (PInt i) = int_str i"
| "py_repr (PFloat nz r) = r"
| "py_repr (PStr s) = repr_str s"
| "py_repr (PList xs) = ''['' @ join '', '' (map py_repr xs) @ '']''"
| "py_repr (PDict kvs) =
     ''{'' @ join '', '' (map (\<lambda>kv. py_repr (fst kv) @ '': '' @ py_repr (snd kv)) kvs) @ ''}''"

text \<open>The text of \<open>str(v)\<close>: a string as it is, any other value as \<open>repr\<close>.\<close>

fun py_str :: "pyval \<Rightarrow> string" where
  "py_str (PStr s) = s"
| "py_str v = py_repr v"

text \<open>
  The conversion of an integer to text raises \<open>ValueError\<close> when the integer has
  more than 4300 digits (the default of \<open>sys.int_max_str_digits\<close>), wherever in the
  value the integer sits. \<open>str_ok v\<close> says that \<open>v\<close> holds no such integer.
\<close>

definition digits_ok :: "int \<Rightarrow> bool" where
  "digits_ok i \<longleftrightarrow> length (nat_str (nat \<bar>i\<bar>)) \<le> 4300"

fun str_ok :: "pyval \<Rightarrow> bool" where
  "str_ok (PInt i) = digits_ok i"
| "str_ok (PList xs) = list_all str_ok xs"
| "str_ok (PDict kvs) = list_all (\<lambda>kv. str_ok (fst kv) \<and> str_ok (snd kv)) kvs"
| "str_ok v = True"

text \<open>What an f-string does for \<open>{v}\<close>: the text of \<open>v\<close>, or the \<open>ValueError\<close>.\<close>

definition format_value :: "pyval \<Rightarrow> py_error + string" where
  "format_value v =
     (if str_ok v then Inr (py_str v)
      else Inl (ValueError ''Exceeds the limit (4300 digits) for integer string conversion; use sys.set_int_max_str_digits() to increase the limit''))"

text \<open>
  The slice \<open>v[:n]\<close>: a prefix of a string or of a list. A dict raises (a
  \<open>TypeError\<close> for the unhashable slice; from Python 3.12 on a \<open>KeyError\<close>), any
  other value is not subscriptable.
\<close>

fun py_slice_to :: "pyval \<Rightarrow> nat \<Rightarrow> py_error + pyval" where
  "py_slice_to (PStr s) n = Inr (PStr (take n s))"
| "py_slice_to (PList xs) n = Inr (PList (take n xs))"
| "py_slice_to (PDict kvs) n = Inl (TypeError (''unhashable type: '' @ quoted ''slice''))"
| "py_slice_to v n = Inl (TypeError (quoted (type_name v) @ '' object is not subscriptable''))"

text \<open>The elements a \<open>for\<close> loop over \<open>v\<close> visits.\<close>

fun py_iter :: "pyval \<Rightarrow> py_error + pyval list" where
  "py_iter (PList xs) = Inr xs"
| "py_iter (PStr s) = Inr (map (\<lambda>c. PStr [c]) s)"
| "py_iter (PDict kvs) = Inr (map fst kvs)"
| "py_iter v = Inl (TypeError (quoted (type_name v) @ '' object is not iterable''))"

text \<open>\<open>v.items()\<close>: only a dict has the method.\<close>

fun py_items :: "pyval \<Rightarrow> py_error + (pyval \<times> pyval) list" where
  "py_items (PDict kvs) = Inr kvs"
| "py_items v = Inl (no_attribute v ''items'')"

section \<open>Classification of the scan outcome\<close>

text \<open>
  The condition \<open>v and len(v) > 0\<close>: the length is only taken of a value that is
  true, and taking it may raise.
\<close>

definition and_len_positive :: "pyval \<Rightarrow> py_error + bool" where
  "and_len_positive v =
     (if truthy v then bind_exc (py_len v) (\<lambda>n. Inr (0 < n)) else Inr False)"

text \<open>The path \<open>ort_data.get('analyzer', {}).get('result', {})\<close>.\<close>

definition analyzer_result :: "pyval \<Rightarrow> py_error + pyval" where
  "analyzer_result ort_data =
     bind_exc (py_get ort_data ''analyzer'' (PDict [])) (\<lambda>analyzer.
       py_get analyzer ''result'' (PDict []))"

definition determine_analysis_status :: "pyval \<Rightarrow> py_error + string" where
  "determine_analysis_status ort_data =
     bind_exc (bind_exc (analyzer_result ort_data) (\<lambda>r. py_get r ''issues'' (PDict []))) (\<lambda>issues.
     bind_exc (bind_exc (analyzer_result ort_data) (\<lambda>r. py_get r ''packages'' (PList []))) (\<lambda>packages.
     bind_exc (and_len_positive issues) (\<lambda>has_issues.
       if has_issues then Inr ''ERROR''
       else bind_exc (and_len_positive packages) (\<lambda>has_packages.
         if has_packages then Inr ''SUCCESS'' else Inr ''INCOMPLETE''))))"

section \<open>Extraction of the key information\<close>

text \<open>
  The dict that \<open>extract_key_info\<close> returns has a fixed set of keys, so it is a
  record; \<open>scan_time\<close> is the nested dict with the keys \<open>start\<close> and \<open>end\<close>.
\<close>

record time_span =
  start :: pyval
  end' :: pyval

record key_info =
  repository_url :: pyval
  revision :: pyval
  ort_version :: pyval
  scan_time :: time_span
  projects :: pyval
  packages :: pyval
  issues :: pyval
  package_managers :: pyval

text \<open>\<open>v.get(k1, {}).get(k2, d)\<close>.\<close>

definition get2 :: "pyval \<Rightarrow> string \<Rightarrow> string \<Rightarrow> pyval \<Rightarrow> py_error + pyval" where
  "get2 v k1 k2 d = bind_exc (py_get v k1 (PDict [])) (\<lambda>inner. py_get inner k2 d)"

definition extract_key_info :: "pyval \<Rightarrow> py_error + key_info" where
  "extract_key_info ort_data =
     bind_exc (py_get ort_data ''analyzer'' (PDict [])) (\<lambda>analyzer.
     bind_exc (py_get analyzer ''result'' (PDict [])) (\<lambda>result.
     bind_exc (py_get ort_data ''repository'' (PDict [])) (\<lambda>repository.
     bind_exc (get2 repository ''vcs_processed'' ''url'' (PStr ''N/A'')) (\<lambda>url.
     bind_exc (get2 repository ''vcs_processed'' ''revision'' (PStr ''N/A'')) (\<lambda>rev.
     bind_exc (get2 analyzer ''environment'' ''ort_version'' (PStr ''N/A'')) (\<lambda>version.
     bind_exc (py_get analyzer ''start_time'' (PStr ''N/A'')) (\<lambda>start_time.
     bind_exc (py_get analyzer ''end_time'' (PStr ''N/A'')) (\<lambda>end_time.
     bind_exc (py_get result ''projects'' (PList [])) (\<lambda>projs.
     bind_exc (py_get result ''packages'' (PList [])) (\<lambda>pkgs.
     bind_exc (py_get result ''issues'' (PDict [])) (\<lambda>iss.
     bind_exc (get2 analyzer ''config'' ''enabled_package_managers'' (PList [])) (\<lambda>managers.
       Inr \<lparr>repository_url = url, revision = rev, ort_version = version,
            scan_time = \<lparr>start = start_time, end' = end_time\<rparr>,
            projects = projs, packages = pkgs, issues = iss,
            package_managers = managers\<rparr>))))))))))))"

section \<open>The prompt\<close>

text \<open>The fixed text of the success branch, line by line.\<close>

definition success_template :: string where
  \<open>success_template = concat
    [''\<newline>'',
     ''**Your Task**: Generate a comprehensive curation report in PROPER MARKDOWN FORMAT.\<newline>'',
     ''\<newline>'',
     ''CRITICAL FORMATTING RULES:\<newline>'',
     ''- Use proper heading hierarchy: # for main title, ## for sections, ### for subsections\<newline>'',
     ''- Add blank lines before and after each heading\<newline>'',
     ''- Add blank lines before and after lists\<newline>'',
     ''- Use proper markdown list syntax with consistent indentation\<newline>'',
     ''- Add blank lines between paragraphs\<newline>'',
     ''- Use markdown tables where appropriate\<newline>'',
     ''- Use code blocks with ``` for technical content\<newline>'',
     ''- Ensure all markdown syntax is properly formatted\<newline>'',
     ''\<newline>'',
     ''**Report Structure** (use this exact structure):\<newline>'',
     ''\<newline>'',
     ''## Executive Summary\<newline>'',
     ''[Provide a clear, concise overview]\<newline>'',
     ''\<newline>'',
     ''## License Analysis\<newline>'',
     ''\<newline>'',
     ''### License Distribution\<newline>'',
     ''[Create a markdown table showing license types and counts]\<newline>'',
     ''\<newline>'',
     ''### License Categories\<newline>'',
     ''[Categorize licenses as Permissive, Copyleft, Proprietary, etc.]\<newline>'',
     ''\<newline>'',
     ''### License Compliance Concerns\<newline>'',
     ''[List any concerns with proper formatting]\<newline>'',
     ''\<newline>'',
     ''## Package Inventory\<newline>'',
     ''\<newline>'',
     ''### Package Summary\<newline>'',
     ''[Provide statistics]\<newline>'',
     ''\<newline>'',
     ''### Detailed Package List\<newline>'',
     ''[Create a well-formatted table or list with: Package Name, Version, License, Source]\<newline>'',
     ''\<newline>'',
     ''## Risk Assessment\<newline>'',
     ''\<newline>'',
     ''### High Priority Issues\<newline>'',
     ''[List critical items]\<newline>'',
     ''\<newline>'',
     ''### Medium Priority Issues\<newline>'',
     ''[List moderate concerns]\<newline>'',
     ''\<newline>'',
     ''### Low Priority Issues\<newline>'',
     ''[List minor notes]\<newline>'',
     ''\<newline>'',
     ''## Recommendations\<newline>'',
     ''\<newline>'',
     ''### Immediate Actions Required\<newline>'',
     ''[Numbered list of actions]\<newline>'',
     ''\<newline>'',
     ''### Best Practices\<newline>'',
     ''[Bullet list of recommendations]\<newline>'',
     ''\<newline>'',
     ''### Long-term Considerations\<newline>'',
     ''[Strategic recommendations]\<newline>'',
     ''\<newline>'',
     ''## Summary\<newline>'',
     ''\<newline>'',
     ''**CRITICAL: Provide a clear, actionable final verdict in this section.**\<newline>'',
     ''\<newline>'',
     ''This section must include:\<newline>'',
     ''1. **Overall Project Status**: Clearly state whether the project is "READY TO PROCEED", "NEEDS ATTENTION", or "BLOCKED" for production use\<newline>'',
     ''2. **Key Findings**: Summarize the most important points in 2-3 sentences\<newline>'',
     ''3. **Compliance Posture**: Assess the overall health of the dependency ecosystem (healthy/moderate concerns/significant risks)\<newline>'',
     ''4. **Go/No-Go Recommendation**: Explicitly state if the project can proceed or what must be fixed first\<newline>'',
     ''\<newline>'',
     ''Example format:\<newline>'',
     ''"The dependency ecosystem is [healthy/concerning/problematic], with [X] packages using predominantly [permissive/copyleft/mixed] licenses. [No immediate compliance risks identified / Critical issues must be addressed before deployment]. The project is [READY TO PROCEED / REQUIRES REMEDIATION / BLOCKED]."\<newline>'',
     ''\<newline>'',
     ''## Appendix\<newline>'',
     ''\<newline>'',
     ''### Package Details\<newline>'',
     ''[Additional technical information]\<newline>'',
     ''\<newline>'',
     ''**Package Information**:\<newline>'']\<close>

text \<open>The fixed text of the other branch.\<close>

definition error_template :: string where
  \<open>error_template = concat
    [''\<newline>'',
     ''**Your Task**: Generate an error analysis report in PROPER MARKDOWN FORMAT.\<newline>'',
     ''\<newline>'',
     ''CRITICAL FORMATTING RULES:\<newline>'',
     ''- Use proper heading hierarchy: # for main title, ## for sections, ### for subsections\<newline>'',
     ''- Add blank lines before and after each heading\<newline>'',
     ''- Add blank lines before and after lists\<newline>'',
     ''- Use proper markdown list syntax with consistent indentation\<newline>'',
     ''- Add blank lines between paragraphs\<newline>'',
     ''- Use code blocks with ``` for error messages\<newline>'',
     ''- Ensure all markdown syntax is properly formatted\<newline>'',
     ''\<newline>'',
     ''**Report Structure** (use this exact structure):\<newline>'',
     ''\<newline>'',
     ''## Error Summary\<newline>'',
     ''[Brief overview of what went wrong]\<newline>'',
     ''\<newline>'',
     ''## Root Cause Analysis\<newline>'',
     ''\<newline>'',
     ''### Primary Error\<newline>'',
     ''[Main error explanation]\<newline>'',
     ''\<newline>'',
     ''### Contributing Factors\<newline>'',
     ''[List factors that led to the error]\<newline>'',
     ''\<newline>'',
     ''## Detailed Error Information\<newline>'',
     ''\<newline>'',
     ''### Error Messages\<newline>'',
     ''[Use code blocks for error messages]\<newline>'',
     ''\<newline>'',
     ''### Affected Components\<newline>'',
     ''[List what couldn't be analyzed]\<newline>'',
     ''\<newline>'',
     ''## Impact Assessment\<newline>'',
     ''\<newline>'',
     ''### Compliance Risks\<newline>'',
     ''[Explain risks from incomplete analysis]\<newline>'',
     ''\<newline>'',
     ''### Missing Data\<newline>'',
     ''[What information is unavailable]\<newline>'',
     ''\<newline>'',
     ''## Troubleshooting Guide\<newline>'',
     ''\<newline>'',
     ''### Immediate Fixes\<newline>'',
     ''1. [Step-by-step numbered list]\<newline>'',
     ''\<newline>'',
     ''### Configuration Changes\<newline>'',
     ''[Detailed recommendations]\<newline>'',
     ''\<newline>'',
     ''### Alternative Approaches\<newline>'',
     ''[Backup strategies]\<newline>'',
     ''\<newline>'',
     ''## Resolution Steps\<newline>'',
     ''\<newline>'',
     ''### Prerequisites\<newline>'',
     ''[What needs to be in place]\<newline>'',
     ''\<newline>'',
     ''### Step-by-Step Resolution\<newline>'',
     ''1. [Detailed numbered steps]\<newline>'',
     ''\<newline>'',
     ''### Verification\<newline>'',
     ''[How to confirm the fix worked]\<newline>'',
     ''\<newline>'',
     ''## Next Steps\<newline>'',
     ''\<newline>'',
     ''### Immediate Actions\<newline>'',
     ''- [Prioritized bullet list]\<newline>'',
     ''\<newline>'',
     ''### Follow-up Tasks\<newline>'',
     ''- [Additional items]\<newline>'',
     ''\<newline>'',
     ''### Escalation Criteria\<newline>'',
     ''[When to escalate]\<newline>'',
     ''\<newline>'',
     ''**Error Details**:\<newline>'']\<close>

definition reminder :: string where
  \<open>reminder = concat
    [''\<newline>'',
     ''\<newline>'',
     ''REMEMBER: Strictly follow proper markdown formatting with blank lines, proper heading hierarchy, and consistent indentation. The output must be valid, well-formatted markdown.'']\<close>

text \<open>
  The opening f-string. Its fields are formatted from left to right; formatting a
  value and taking a length may raise. A length is a machine-size number, whose
  digits are always printed.
\<close>

definition prompt_head :: "key_info \<Rightarrow> string \<Rightarrow> py_error + string" where
  \<open>prompt_head key_info status =
     bind_exc (format_value (repository_url key_info)) (\<lambda>url.
     bind_exc (format_value (revision key_info)) (\<lambda>rev.
     bind_exc (format_value (ort_version key_info)) (\<lambda>version.
     bind_exc (format_value (start (scan_time key_info))) (\<lambda>start_time.
     bind_exc (format_value (end' (scan_time key_info))) (\<lambda>end_time.
     bind_exc (py_len (projects key_info)) (\<lambda>n_projects.
     bind_exc (py_len (packages key_info)) (\<lambda>n_packages.
     bind_exc (py_len (issues key_info)) (\<lambda>n_issues.
       Inr (''You are an expert software compliance analyst reviewing ORT (OSS Review Toolkit) analysis results.\<newline>''
         @ ''\<newline>''
         @ ''**Analysis Status**: '' @ status @ ''\<newline>''
         @ ''\<newline>''
         @ ''**Repository Information**:\<newline>''
         @ ''- Repository: '' @ url @ ''\<newline>''
         @ ''- Revision: '' @ rev @ ''\<newline>''
         @ ''- ORT Version: '' @ version @ ''\<newline>''
         @ ''\<newline>''
         @ ''**Scan Details**:\<newline>''
         @ ''- Start Time: '' @ start_time @ ''\<newline>''
         @ ''- End Time: '' @ end_time @ ''\<newline>''
         @ ''\<newline>''
         @ ''**Projects Analyzed**: '' @ nat_str n_projects @ ''\<newline>''
         @ ''**Packages Detected**: '' @ nat_str n_packages @ ''\<newline>''
         @ ''**Issues Found**: '' @ nat_str n_issues @ ''\<newline>''
         @ ''\<newline>'')))))))))\<close>

text \<open>The three lines added for one package, each looked up and formatted in turn.\<close>

definition package_entry :: "pyval \<Rightarrow> py_error + string" where
  "package_entry pkg =
     bind_exc (py_get pkg ''id'' (PStr ''Unknown'')) (\<lambda>pkg_id.
     bind_exc (format_value pkg_id) (\<lambda>id_text.
     bind_exc (py_get pkg ''declared_licenses'' (PList [PStr ''Unknown''])) (\<lambda>licenses.
     bind_exc (format_value licenses) (\<lambda>licenses_text.
     bind_exc (py_get pkg ''homepage_url'' (PStr ''N/A'')) (\<lambda>homepage.
     bind_exc (format_value homepage) (\<lambda>homepage_text.
       Inr (''\<newline>- '' @ id_text
         @ ''\<newline>  License: '' @ licenses_text
         @ ''\<newline>  Homepage: '' @ homepage_text)))))))"

text \<open>The loop over the packages, the prompt being the accumulator.\<close>

fun package_loop :: "pyval list \<Rightarrow> string \<Rightarrow> py_error + string" where
  "package_loop [] prompt = Inr prompt"
| "package_loop (pkg # pkgs) prompt =
     (case package_entry pkg of
        Inl e \<Rightarrow> Inl e
      | Inr entry \<Rightarrow> package_loop pkgs (prompt @ entry))"

text \<open>The three lines added for one issue; the message is cut to 500 characters.\<close>

definition issue_entry :: "pyval \<Rightarrow> py_error + string" where
  "issue_entry issue =
     bind_exc (py_get issue ''severity'' (PStr ''Unknown'')) (\<lambda>severity.
     bind_exc (format_value severity) (\<lambda>severity_text.
     bind_exc (py_get issue ''source'' (PStr ''Unknown'')) (\<lambda>source.
     bind_exc (format_value source) (\<lambda>source_text.
     bind_exc (py_get issue ''message'' (PStr ''Unknown'')) (\<lambda>message.
     bind_exc (py_slice_to message 500) (\<lambda>cut.
     bind_exc (format_value cut) (\<lambda>message_text.
       Inr (''\<newline>- Severity: '' @ severity_text
         @ ''\<newline>- Source: '' @ source_text
         @ ''\<newline>- Message: '' @ message_text @ ''...''))))))))"

fun issue_loop :: "pyval list \<Rightarrow> string \<Rightarrow> py_error + string" where
  "issue_loop [] prompt = Inr prompt"
| "issue_loop (issue # rest) prompt =
     (case issue_entry issue of
        Inl e \<Rightarrow> Inl e
      | Inr entry \<Rightarrow> issue_loop rest (prompt @ entry))"

text \<open>
  The loop over the items of the issues mapping: the line of the project, then the
  loop over its issues.
\<close>

fun project_loop :: "(pyval \<times> pyval) list \<Rightarrow> string \<Rightarrow> py_error + string" where
  "project_loop [] prompt = Inr prompt"
| "project_loop ((project_id, project_issues) # rest) prompt =
     (case format_value project_id of
        Inl e \<Rightarrow> Inl e
      | Inr project_text \<Rightarrow>
          (case py_iter project_issues of
             Inl e \<Rightarrow> Inl e
           | Inr issue_list \<Rightarrow>
               (case issue_loop issue_list (prompt @ ''\<newline>\<newline>Project: '' @ project_text) of
                  Inl e \<Rightarrow> Inl e
                | Inr prompt' \<Rightarrow> project_loop rest prompt')))"

definition generate_curation_prompt :: "key_info \<Rightarrow> string \<Rightarrow> py_error + string" where
  "generate_curation_prompt key_info status =
     bind_exc (prompt_head key_info status) (\<lambda>prompt.
     bind_exc
       (if status = ''SUCCESS''
        then bind_exc (py_slice_to (packages key_info) 10) (\<lambda>first_ten.
             bind_exc (py_iter first_ten) (\<lambda>pkgs.
               package_loop pkgs (prompt @ success_template)))
        else bind_exc (py_items (issues key_info)) (\<lambda>items.
               project_loop items (prompt @ error_template)))
       (\<lambda>prompt. Inr (prompt @ reminder)))"

section \<open>The run: environment, report, exit status\<close>

text \<open>
  What the program does to its surroundings is recorded as a trace of events; what
  the surroundings answer is a parameter, the \<open>world\<close>.
\<close>

record azure_config =
  endpoint :: string
  api_key :: "string option"
  api_version :: string
  deployment_name :: string

text \<open>
  A chat request: the model and the messages, each a role and a content. The two
  other arguments of the call are the constants \<open>temperature=0.3\<close> and
  \<open>max_tokens=4000\<close>.
\<close>

record chat_request =
  model :: string
  messages :: "(string \<times> string) list"

datatype event =
    Print string
  | ClientConstructed azure_config
  | ReadFile string
  | ChatCompletion chat_request
  | WriteFile string string
  | Unhandled py_error

text \<open>
  The world: the environment variables, the two texts the clock gives (in
  \<open>generate_report\<close> as \<open>%Y-%m-%d %H:%M:%S\<close>, in the main block as
  \<open>%Y%m%d-%H%M%S\<close>), the outcome of opening and parsing a file, of constructing the
  client, of a chat request (the \<open>message.content\<close> of each choice, which may be
  \<open>None\<close>) and of writing a file; the message of the \<open>UnicodeEncodeError\<close> for a
  text that standard output cannot encode; and the exit status of a process that
  ends on an exception outside \<open>Exception\<close> (for an interrupt, the signal).
\<close>

record world =
  environ :: "string \<Rightarrow> string option"
  now_header :: string
  now_filename :: string
  load_yaml :: "string \<Rightarrow> py_error + pyval"
  construct_client :: "azure_config \<Rightarrow> py_error option"
  chat_create :: "azure_config \<Rightarrow> chat_request \<Rightarrow> py_error + string option list"
  write_file :: "string \<Rightarrow> string \<Rightarrow> py_error option"
  stdout_rejects :: "string \<Rightarrow> string option"
  interrupted_status :: "py_error \<Rightarrow> nat"

text \<open>The generator object: the client (known by its configuration) and the deployment.\<close>

record generator =
  self_client :: azure_config
  self_deployment_name :: string

text \<open>An action: the events it emits, and its result or the exception that ended it.\<close>

type_synonym 'a action = "event list \<times> (py_error + 'a)"

definition and_then :: "'a action \<Rightarrow> ('a \<Rightarrow> 'b action) \<Rightarrow> 'b action" where
  "and_then m f =
     (case m of
        (t, Inl e) \<Rightarrow> (t, Inl e)
      | (t, Inr x) \<Rightarrow> (case f x of (t', r) \<Rightarrow> (t @ t', r)))"

definition pure :: "py_error + 'a \<Rightarrow> 'a action" where
  "pure r = ([], r)"

text \<open>
  \<open>print(s)\<close>: the text is encoded for standard output and written. Every encoding
  of standard output has the ASCII characters, so a text of these is printed; any
  other text is printed unless encoding it raises, and then nothing of it is written.
  Standard output itself is taken to be open and writable.
\<close>

definition ascii :: "char \<Rightarrow> bool" where
  "ascii c \<longleftrightarrow> (of_char c :: nat) < 128"

definition print :: "world \<Rightarrow> string \<Rightarrow> unit action" where
  "print w s =
     (case (if list_all ascii s then None else stdout_rejects w s) of
        None \<Rightarrow> ([Print s], Inr ())
      | Some m \<Rightarrow> ([], Inl (UnicodeEncodeError m)))"

text \<open>Whether printing a text succeeds.\<close>

definition prints :: "world \<Rightarrow> string \<Rightarrow> bool" where
  "prints w s \<longleftrightarrow> list_all ascii s \<or> stdout_rejects w s = None"

definition load_ort_results :: "world \<Rightarrow> string \<Rightarrow> pyval action" where
  "load_ort_results w file_path = ([ReadFile file_path], load_yaml w file_path)"

definition system_message :: string where
  \<open>system_message = ''You are an expert software compliance analyst specializing in open-source license compliance and dependency analysis. You always produce well-formatted, valid markdown with proper heading hierarchy, blank lines, and consistent formatting.''\<close>

definition chat_completions_create :: "world \<Rightarrow> generator \<Rightarrow> string \<Rightarrow> string option list action" where
  "chat_completions_create w self prompt =
     (let request = \<lparr>model = self_deployment_name self,
                     messages = [(''system'', system_message), (''user'', prompt)]\<rparr>
      in ([ChatCompletion request], chat_create w (self_client self) request))"

text \<open>\<open>response.choices[0].message.content\<close>.\<close>

definition first_content :: "string option list \<Rightarrow> py_error + string option" where
  "first_content choices =
     (case choices of
        [] \<Rightarrow> Inl (IndexError ''list index out of range'')
      | c # cs \<Rightarrow> Inr c)"

text \<open>The metadata header, given the texts of the repository and of the cut revision.\<close>

definition metadata :: "string \<Rightarrow> string \<Rightarrow> string \<Rightarrow> string \<Rightarrow> string" where
  \<open>metadata generated status url rev8 =
     ''# ORT Analysis Curation Report\<newline>''
     @ ''\<newline>''
     @ ''**Generated:** '' @ generated @ ''  \<newline>''
     @ ''**Status:** '' @ status @ ''  \<newline>''
     @ ''**Repository:** '' @ url @ ''  \<newline>''
     @ ''**Revision:** '' @ rev8 @ ''...\<newline>''
     @ ''\<newline>''
     @ ''---\<newline>''
     @ ''\<newline>''\<close>

text \<open>\<open>metadata + report\<close>: a report that is \<open>None\<close> cannot be appended.\<close>

definition concat_report :: "string \<Rightarrow> string option \<Rightarrow> py_error + string" where
  \<open>concat_report header report =
     (case report of
        None \<Rightarrow> Inl (TypeError ''can only concatenate str (not "NoneType") to str'')
      | Some body \<Rightarrow> Inr (header @ body))\<close>

definition generate_report :: "world \<Rightarrow> generator \<Rightarrow> string \<Rightarrow> string action" where
  "generate_report w self file_path =
     and_then (load_ort_results w file_path) (\<lambda>ort_data.
     and_then (pure (extract_key_info ort_data)) (\<lambda>key_info.
     and_then (pure (determine_analysis_status ort_data)) (\<lambda>status.
     and_then (pure (generate_curation_prompt key_info status)) (\<lambda>prompt.
     and_then (chat_completions_create w self prompt) (\<lambda>choices.
     and_then (pure (first_content choices)) (\<lambda>report.
     and_then (pure (format_value (repository_url key_info))) (\<lambda>url.
     and_then (pure (py_slice_to (revision key_info) 8)) (\<lambda>cut.
     and_then (pure (format_value cut)) (\<lambda>rev8.
       pure (concat_report (metadata (now_header w) status url rev8) report))))))))))"

definition save_report :: "world \<Rightarrow> string \<Rightarrow> string \<Rightarrow> unit action" where
  "save_report w report output_path =
     and_then
       (case write_file w output_path report of
          Some e \<Rightarrow> ([WriteFile output_path report], Inl e)
        | None \<Rightarrow> ([WriteFile output_path report], Inr ()))
       (\<lambda>_. print w (''Report saved to: '' @ output_path))"

text \<open>The body of the \<open>try\<close> block of the main block.\<close>

definition try_body :: "world \<Rightarrow> generator \<Rightarrow> string \<Rightarrow> string \<Rightarrow> unit action" where
  "try_body w gen input_file output_file =
     and_then (generate_report w gen input_file) (\<lambda>report.
     and_then (save_report w report output_file) (\<lambda>_.
     and_then (print w ''\<newline>Report Preview:'') (\<lambda>_.
     and_then (print w (replicate 80 CHR ''='')) (\<lambda>_.
     and_then (print w (take 1000 report @ ''...\<newline>'')) (\<lambda>_.
     and_then (print w (replicate 80 CHR ''='')) (\<lambda>_.
       print w (''\<newline>Successfully generated: '' @ output_file)))))))"

text \<open>The configuration read from the environment at the start of the main block.\<close>

definition azure_config :: "world \<Rightarrow> azure_config" where
  "azure_config w =
     \<lparr>endpoint = (case environ w ''AZURE_OPENAI_ENDPOINT'' of
                    Some e \<Rightarrow> e
                  | None \<Rightarrow> ''https://ltts-cariad-ddd-mvp-ai-foundry.cognitiveservices.azure.com''),
      api_key = environ w ''AZURE_OPENAI_API_KEY'',
      api_version = ''2025-01-01-preview'',
      deployment_name = ''gpt-4.1-mini''\<rparr>"

definition input_file :: string where
  "input_file = ''ort-results/analyzer/analyzer-result.yml''"

definition output_file :: "world \<Rightarrow> string" where
  "output_file w = ''curation-report-'' @ now_filename w @ ''.md''"

text \<open>\<open>not azure_config['api_key']\<close>: the key is \<open>None\<close> or the empty string.\<close>

definition key_missing :: "string option \<Rightarrow> bool" where
  "key_missing k = (case k of None \<Rightarrow> True | Some s \<Rightarrow> s = [])"

text \<open>\<open>ORTCurationReportGenerator(azure_config)\<close>, once the client is constructed.\<close>

definition init_generator :: "azure_config \<Rightarrow> generator" where
  "init_generator config =
     \<lparr>self_client = config, self_deployment_name = deployment_name config\<rparr>"

text \<open>
  A run that ends on an exception nobody handles: the interpreter reports it and
  the process ends, with status 1 for a class under \<open>Exception\<close>.
\<close>

definition unhandled :: "world \<Rightarrow> event list \<Rightarrow> py_error \<Rightarrow> event list \<times> nat" where
  "unhandled w t e =
     (t @ [Unhandled e], if is_exception e then 1 else interrupted_status w e)"

text \<open>
  The handler \<open>except Exception\<close>: it prints the message and exits with 1. An
  exception of another class is not handled, nor is one that the print of the
  handler raises.
\<close>

definition except_exception :: "world \<Rightarrow> event list \<Rightarrow> py_error \<Rightarrow> event list \<times> nat" where
  "except_exception w t e =
     (if is_exception e
      then
        (case print w (''Error generating report: '' @ exc_str e) of
           (t', Inr _) \<Rightarrow> (t @ t', 1)
         | (t', Inl e') \<Rightarrow> unhandled w (t @ t') e')
      else unhandled w t e)"

text \<open>
  The main block: the trace of the run and the exit status of the process. An
  exception outside the \<open>try\<close> block (in the two prints about the key, in the
  constructor of the client) is not handled.
\<close>

definition main :: "world \<Rightarrow> event list \<times> nat" where
  "main w =
     (if key_missing (api_key (azure_config w))
      then
        (case and_then
                (print w ''ERROR: AZURE_OPENAI_API_KEY environment variable not set!'')
                (\<lambda>_. print w ''Please set it in your GitHub Secrets.'') of
           (t, Inr _) \<Rightarrow> (t, 1)
         | (t, Inl e) \<Rightarrow> unhandled w t e)
      else
        (case construct_client w (azure_config w) of
           Some e \<Rightarrow> unhandled w [ClientConstructed (azure_config w)] e
         | None \<Rightarrow>
             (case try_body w (init_generator (azure_config w)) input_file (output_file w) of
                (t, Inr _) \<Rightarrow> (ClientConstructed (azure_config w) # t, 0)
              | (t, Inl e) \<Rightarrow>
                  except_exception w (ClientConstructed (azure_config w) # t) e)))"

text \<open>The events that reach the text-generation service or set up its client.\<close>

fun network_event :: "event \<Rightarrow> bool" where
  "network_event (ClientConstructed c) = True"
| "network_event (ChatCompletion r) = True"
| "network_event ev = False"


section \<open>Fields of a document\<close>

text \<open>
  What a document holds under a path of keys: nothing (a key of the path is missing
  from its mapping), a value, or no answer because a value on the way is not a
  mapping.
\<close>

datatype field = Absent | Present pyval | Malformed

fun field_at :: "pyval \<Rightarrow> string list \<Rightarrow> field" where
  "field_at v [] = Present v"
| "field_at (PDict kvs) (k # ks) =
     (case map_of kvs (PStr k) of None \<Rightarrow> Absent | Some v \<Rightarrow> field_at v ks)"
| "field_at v (k # ks) = Malformed"

text \<open>A collection is a list or a mapping.\<close>

fun nonempty_collection :: "pyval \<Rightarrow> bool" where
  "nonempty_collection (PList xs) = (xs \<noteq> [])"
| "nonempty_collection (PDict kvs) = (kvs \<noteq> [])"
| "nonempty_collection v = False"

fun empty_collection :: "pyval \<Rightarrow> bool" where
  "empty_collection (PList xs) = (xs = [])"
| "empty_collection (PDict kvs) = (kvs = [])"
| "empty_collection v = False"

definition empty_or_absent :: "field \<Rightarrow> bool" where
  "empty_or_absent f = (case f of Absent \<Rightarrow> True | Present v \<Rightarrow> empty_collection v | Malformed \<Rightarrow> False)"

text \<open>The value of a field, or the placeholder where the field is absent.\<close>

fun value_or :: "field \<Rightarrow> pyval \<Rightarrow> pyval" where
  "value_or (Present v) d = v"
| "value_or f d = d"

text \<open>
  A document is well nested when the sections the extraction walks through
  (\<open>repository.vcs_processed\<close>, \<open>analyzer.environment\<close>, \<open>analyzer.result\<close>,
  \<open>analyzer.config\<close>) are mappings wherever they are present. Any of them, and any
  field in them, may be missing.
\<close>

definition well_nested :: "pyval \<Rightarrow> bool" where
  "well_nested d \<longleftrightarrow>
     field_at d [''repository'', ''vcs_processed'', ''url''] \<noteq> Malformed
     \<and> field_at d [''analyzer'', ''environment'', ''ort_version''] \<noteq> Malformed
     \<and> field_at d [''analyzer'', ''result'', ''issues''] \<noteq> Malformed
     \<and> field_at d [''analyzer'', ''config'', ''enabled_package_managers''] \<noteq> Malformed"

text \<open>
  The shapes the prompt relies on, for the fields that are present: the projects
  are a list, the packages are a list whose first ten entries are mappings, the
  issues map each project to a list of mappings whose message, if any, is a string;
  and no integer of the document has more than 4300 digits.
\<close>

fun is_dict :: "pyval \<Rightarrow> bool" where
  "is_dict (PDict kvs) = True"
| "is_dict v = False"

fun is_list :: "pyval \<Rightarrow> bool" where
  "is_list (PList xs) = True"
| "is_list v = False"

fun is_str :: "pyval \<Rightarrow> bool" where
  "is_str (PStr s) = True"
| "is_str v = False"

definition issue_ok :: "pyval \<Rightarrow> bool" where
  "issue_ok issue \<longleftrightarrow>
     is_dict issue \<and> is_str (value_or (field_at issue [''message'']) (PStr ''Unknown''))"

fun issue_list_ok :: "pyval \<Rightarrow> bool" where
  "issue_list_ok (PList xs) = list_all issue_ok xs"
| "issue_list_ok v = False"

fun issues_ok :: "pyval \<Rightarrow> bool" where
  "issues_ok (PDict items) = list_all (\<lambda>item. issue_list_ok (snd item)) items"
| "issues_ok v = False"

fun packages_ok :: "pyval \<Rightarrow> bool" where
  "packages_ok (PList ps) = list_all is_dict (take 10 ps)"
| "packages_ok v = False"

definition expected_shape :: "pyval \<Rightarrow> bool" where
  "expected_shape d \<longleftrightarrow>
     well_nested d \<and> str_ok d
     \<and> is_list (value_or (field_at d [''analyzer'', ''result'', ''projects'']) (PList []))
     \<and> packages_ok (value_or (field_at d [''analyzer'', ''result'', ''packages'']) (PList []))
     \<and> issues_ok (value_or (field_at d [''analyzer'', ''result'', ''issues'']) (PDict []))"

text \<open>The key information of a well nested document, field by field.\<close>

definition expected_key_info :: "pyval \<Rightarrow> key_info" where
  "expected_key_info d =
     \<lparr>repository_url =
        value_or (field_at d [''repository'', ''vcs_processed'', ''url'']) (PStr ''N/A''),
      revision =
        value_or (field_at d [''repository'', ''vcs_processed'', ''revision'']) (PStr ''N/A''),
      ort_version =
        value_or (field_at d [''analyzer'', ''environment'', ''ort_version'']) (PStr ''N/A''),
      scan_time =
        \<lparr>start = value_or (field_at d [''analyzer'', ''start_time'']) (PStr ''N/A''),
         end' = value_or (field_at d [''analyzer'', ''end_time'']) (PStr ''N/A'')\<rparr>,
      projects = value_or (field_at d [''analyzer'', ''result'', ''projects'']) (PList []),
      packages = value_or (field_at d [''analyzer'', ''result'', ''packages'']) (PList []),
      issues = value_or (field_at d [''analyzer'', ''result'', ''issues'']) (PDict []),
      package_managers =
        value_or (field_at d [''analyzer'', ''config'', ''enabled_package_managers'']) (PList [])\<rparr>"

text \<open>
  What the prompt is to hold, written from the fields of the document: the text of a
  field is the text of its value, or of the placeholder where the field is absent.
\<close>

definition field_text :: "pyval \<Rightarrow> string list \<Rightarrow> pyval \<Rightarrow> string" where
  "field_text v path placeholder = py_str (value_or (field_at v path) placeholder)"

fun elements :: "pyval \<Rightarrow> pyval list" where
  "elements (PList xs) = xs"
| "elements v = []"

fun entries :: "pyval \<Rightarrow> (pyval \<times> pyval) list" where
  "entries (PDict kvs) = kvs"
| "entries v = []"

definition expected_opening :: "pyval \<Rightarrow> string \<Rightarrow> string" where
  \<open>expected_opening d status =
     ''You are an expert software compliance analyst reviewing ORT (OSS Review Toolkit) analysis results.\<newline>''
     @ ''\<newline>''
     @ ''**Analysis Status**: '' @ status @ ''\<newline>''
     @ ''\<newline>''
     @ ''**Repository Information**:\<newline>''
     @ ''- Repository: ''
     @ field_text d [''repository'', ''vcs_processed'', ''url''] (PStr ''N/A'') @ ''\<newline>''
     @ ''- Revision: ''
     @ field_text d [''repository'', ''vcs_processed'', ''revision''] (PStr ''N/A'') @ ''\<newline>''
     @ ''- ORT Version: ''
     @ field_text d [''analyzer'', ''environment'', ''ort_version''] (PStr ''N/A'') @ ''\<newline>''
     @ ''\<newline>''
     @ ''**Scan Details**:\<newline>''
     @ ''- Start Time: '' @ field_text d [''analyzer'', ''start_time''] (PStr ''N/A'') @ ''\<newline>''
     @ ''- End Time: '' @ field_text d [''analyzer'', ''end_time''] (PStr ''N/A'') @ ''\<newline>''
     @ ''\<newline>''
     @ ''**Projects Analyzed**: ''
     @ nat_str (length (elements (value_or (field_at d [''analyzer'', ''result'', ''projects'']) (PList []))))
     @ ''\<newline>''
     @ ''**Packages Detected**: ''
     @ nat_str (length (elements (value_or (field_at d [''analyzer'', ''result'', ''packages'']) (PList []))))
     @ ''\<newline>''
     @ ''**Issues Found**: ''
     @ nat_str (length (entries (value_or (field_at d [''analyzer'', ''result'', ''issues'']) (PDict []))))
     @ ''\<newline>''
     @ ''\<newline>''\<close>

definition expected_package_lines :: "pyval \<Rightarrow> string" where
  "expected_package_lines pkg =
     ''\<newline>- '' @ field_text pkg [''id''] (PStr ''Unknown'')
     @ ''\<newline>  License: '' @ field_text pkg [''declared_licenses''] (PList [PStr ''Unknown''])
     @ ''\<newline>  Homepage: '' @ field_text pkg [''homepage_url''] (PStr ''N/A'')"

definition expected_issue_lines :: "pyval \<Rightarrow> string" where
  "expected_issue_lines issue =
     ''\<newline>- Severity: '' @ field_text issue [''severity''] (PStr ''Unknown'')
     @ ''\<newline>- Source: '' @ field_text issue [''source''] (PStr ''Unknown'')
     @ ''\<newline>- Message: '' @ take 500 (field_text issue [''message''] (PStr ''Unknown'')) @ ''...''"

definition expected_project_lines :: "pyval \<times> pyval \<Rightarrow> string" where
  "expected_project_lines item =
     ''\<newline>\<newline>Project: '' @ py_str (fst item)
     @ concat (map expected_issue_lines (elements (snd item)))"

definition expected_prompt :: "pyval \<Rightarrow> string \<Rightarrow> string" where
  "expected_prompt d status =
     expected_opening d status
     @ (if status = ''SUCCESS''
        then success_template
          @ concat (map expected_package_lines
              (take 10 (elements (value_or (field_at d [''analyzer'', ''result'', ''packages'']) (PList [])))))
        else error_template
          @ concat (map expected_project_lines
              (entries (value_or (field_at d [''analyzer'', ''result'', ''issues'']) (PDict [])))))
     @ reminder"

section \<open>Examples\<close>

text \<open>A scan with an issue for one project, and a package entry that is no list.\<close>

definition doc_issues :: pyval where
  "doc_issues =
     PDict [(PStr ''analyzer'',
       PDict [(PStr ''result'',
         PDict [(PStr ''issues'',
                   PDict [(PStr ''Gradle::app:1.0'',
                     PList [PDict [(PStr ''severity'', PStr ''ERROR''),
                                   (PStr ''message'', PStr ''resolution failed'')]])]),
                (PStr ''packages'', PInt 5)])])]"

text \<open>A scan with no issue and two packages, the second without a homepage.\<close>

definition doc_packages :: pyval where
  "doc_packages =
     PDict [(PStr ''repository'',
       PDict [(PStr ''vcs_processed'',
         PDict [(PStr ''url'', PStr ''https://example.org/app.git''),
                (PStr ''revision'', PStr ''0123456789abcdef'')])]),
      (PStr ''analyzer'',
       PDict [(PStr ''result'',
         PDict [(PStr ''issues'', PDict []),
                (PStr ''packages'',
                   PList [PDict [(PStr ''id'', PStr ''Maven:org.a:a:1.0''),
                                 (PStr ''declared_licenses'', PList [PStr ''MIT'']),
                                 (PStr ''homepage_url'', PStr ''https://a.example'')],
                          PDict [(PStr ''id'', PStr ''Maven:org.b:b:2.0'')]])])])]"

text \<open>A scan whose analyzer section has no result at all.\<close>

definition doc_bare :: pyval where
  "doc_bare = PDict [(PStr ''analyzer'', PDict [(PStr ''start_time'', PStr ''2024-01-01T00:00:00Z'')])]"

text \<open>
  A run in which everything answers: the key is set, the file holds the scan with
  two packages, the service returns one choice.
\<close>

definition world_ok :: world where
  "world_ok =
     \<lparr>environ = [''AZURE_OPENAI_API_KEY'' \<mapsto> ''secret''],
      now_header = ''2024-05-06 07:08:09'',
      now_filename = ''20240506-070809'',
      load_yaml = (\<lambda>path. if path = ''ort-results/analyzer/analyzer-result.yml''
                           then Inr doc_packages
                           else Inl (OtherError ''FileNotFoundError'' ''No such file or directory'')),
      construct_client = (\<lambda>config. None),
      chat_create = (\<lambda>config request. Inr [Some ''## Executive Summary'']),
      write_file = (\<lambda>path content. None),
      stdout_rejects = (\<lambda>text. None),
      interrupted_status = (\<lambda>e. 130)\<rparr>"

text \<open>The same surroundings without the key, with an empty key, and without the file.\<close>

definition world_no_key :: world where
  "world_no_key = world_ok\<lparr>environ := Map.empty\<rparr>"

definition world_empty_key :: world where
  "world_empty_key = world_ok\<lparr>environ := [''AZURE_OPENAI_API_KEY'' \<mapsto> '''']\<rparr>"






text \<open>Key information with eleven packages, known by their ids only.\<close>

definition eleven_packages :: "pyval list" where
  "eleven_packages =
     map (\<lambda>name. PDict [(PStr ''id'', PStr name)])
       [''p1'', ''p2'', ''p3'', ''p4'', ''p5'', ''p6'', ''p7'', ''p8'', ''p9'', ''p10'', ''p11'']"

definition ki_eleven :: key_info where
  "ki_eleven =
     \<lparr>repository_url = PStr ''N/A'', revision = PStr ''N/A'', ort_version = PStr ''N/A'',
      scan_time = \<lparr>start = PStr ''N/A'', end' = PStr ''N/A''\<rparr>,
      projects = PList [], packages = PList eleven_packages, issues = PDict [],
      package_managers = PList []\<rparr>"



definition head_eleven :: string where
  "head_eleven =
       ''You are an expert software compliance analyst reviewing ORT (OSS Review Toolkit) analysis results.\<newline>''
       @ ''\<newline>''
       @ ''**Analysis Status**: SUCCESS\<newline>''
       @ ''\<newline>''
       @ ''**Repository Information**:\<newline>''
       @ ''- Repository: N/A\<newline>''
       @ ''- Revision: N/A\<newline>''
       @ ''- ORT Version: N/A\<newline>''
       @ ''\<newline>''
       @ ''**Scan Details**:\<newline>''
       @ ''- Start Time: N/A\<newline>''
       @ ''- End Time: N/A\<newline>''
       @ ''\<newline>''
       @ ''**Projects Analyzed**: 0\<newline>''
       @ ''**Packages Detected**: 11\<newline>''
       @ ''**Issues Found**: 0\<newline>''
       @ ''\<newline>''"

definition ten_entries :: "string list" where
  "ten_entries =
       [''\<newline>- p1\<newline>  License: ['Unknown']\<newline>  Homepage: N/A'',
        ''\<newline>- p2\<newline>  License: ['Unknown']\<newline>  Homepage: N/A'',
        ''\<newline>- p3\<newline>  License: ['Unknown']\<newline>  Homepage: N/A'',
        ''\<newline>- p4\<newline>  License: ['Unknown']\<newline>  Homepage: N/A'',
        ''\<newline>- p5\<newline>  License: ['Unknown']\<newline>  Homepage: N/A'',
        ''\<newline>- p6\<newline>  License: ['Unknown']\<newline>  Homepage: N/A'',
        ''\<newline>- p7\<newline>  License: ['Unknown']\<newline>  Homepage: N/A'',
        ''\<newline>- p8\<newline>  License: ['Unknown']\<newline>  Homepage: N/A'',
        ''\<newline>- p9\<newline>  License: ['Unknown']\<newline>  Homepage: N/A'',
        ''\<newline>- p10\<newline>  License: ['Unknown']\<newline>  Homepage: N/A'']"

text \<open>The report that the run with everything in place is to give.\<close>

definition report_ok :: string where
  "report_ok =
       ''# ORT Analysis Curation Report\<newline>''
       @ ''\<newline>''
       @ ''**Generated:** 2024-05-06 07:08:09  \<newline>''
       @ ''**Status:** SUCCESS  \<newline>''
       @ ''**Repository:** https://example.org/app.git  \<newline>''
       @ ''**Revision:** 01234567...\<newline>''
       @ ''\<newline>''
       @ ''---\<newline>''
       @ ''\<newline>''
       @ ''## Executive Summary''"

text \<open>The prompt that the scan with two packages is to give.\<close>

definition prompt_packages :: string where
  "prompt_packages =
       ''You are an expert software compliance analyst reviewing ORT (OSS Review Toolkit) analysis results.\<newline>''
       @ ''\<newline>''
       @ ''**Analysis Status**: SUCCESS\<newline>''
       @ ''\<newline>''
       @ ''**Repository Information**:\<newline>''
       @ ''- Repository: https://example.org/app.git\<newline>''
       @ ''- Revision: 0123456789abcdef\<newline>''
       @ ''- ORT Version: N/A\<newline>''
       @ ''\<newline>''
       @ ''**Scan Details**:\<newline>''
       @ ''- Start Time: N/A\<newline>''
       @ ''- End Time: N/A\<newline>''
       @ ''\<newline>''
       @ ''**Projects Analyzed**: 0\<newline>''
       @ ''**Packages Detected**: 2\<newline>''
       @ ''**Issues Found**: 0\<newline>''
       @ ''\<newline>''
       @ success_template
       @ ''\<newline>- Maven:org.a:a:1.0''
       @ ''\<newline>  License: ['MIT']''
       @ ''\<newline>  Homepage: https://a.example''
       @ ''\<newline>- Maven:org.b:b:2.0''
       @ ''\<newline>  License: ['Unknown']''
       @ ''\<newline>  Homepage: N/A''
       @ reminder"

section \<open>Properties of the classification\<close>

lemma bind_exc_Inr [simp]: "bind_exc (Inr x) f = f x"
  by (simp add: bind_exc_def)

lemma bind_exc_Inl [simp]: "bind_exc (Inl e) f = Inl e"
  by (simp add: bind_exc_def)

lemma bind_exc_eq_Inr:
  "bind_exc m f = Inr y \<longleftrightarrow> (\<exists>x. m = Inr x \<and> f x = Inr y)"
  by (cases m) simp_all

lemma py_get_dict: "py_get v k d = Inr x \<Longrightarrow> \<exists>kvs. v = PDict kvs"
  by (cases v) simp_all

text \<open>A field that is present under \<open>analyzer.result\<close> is what the lookup chain returns.\<close>

lemma analyzer_result_present:
  assumes "field_at d [''analyzer'', ''result'', k] = Present v"
  shows "bind_exc (analyzer_result d) (\<lambda>r. py_get r k dflt) = Inr v"
proof -
  from assms obtain top where d: "d = PDict top"
    by (cases d) simp_all
  with assms obtain a where a: "map_of top (PStr ''analyzer'') = Some a"
    by (auto split: option.splits)
  with assms d obtain mid where mid: "a = PDict mid"
    by (cases a) simp_all
  with assms d a obtain r where r: "map_of mid (PStr ''result'') = Some r"
    by (auto split: option.splits)
  with assms d a mid obtain res where res: "r = PDict res"
    by (cases r) simp_all
  with assms d a mid r have "map_of res (PStr k) = Some v"
    by (auto split: option.splits)
  with d a mid r res show ?thesis
    by (simp add: analyzer_result_def)
qed

text \<open>A field that is absent there, at whatever level, yields the default.\<close>

lemma analyzer_result_absent:
  assumes "field_at d [''analyzer'', ''result'', k] = Absent"
  shows "bind_exc (analyzer_result d) (\<lambda>r. py_get r k dflt) = Inr dflt"
proof -
  from assms obtain top where d: "d = PDict top"
    by (cases d) simp_all
  show ?thesis
  proof (cases "map_of top (PStr ''analyzer'')")
    case None
    with d show ?thesis by (simp add: analyzer_result_def)
  next
    case (Some a)
    with assms d obtain mid where mid: "a = PDict mid"
      by (cases a) simp_all
    show ?thesis
    proof (cases "map_of mid (PStr ''result'')")
      case None
      with d Some mid show ?thesis by (simp add: analyzer_result_def)
    next
      case (Some r)
      with assms d \<open>map_of top (PStr ''analyzer'') = Some a\<close> mid obtain res where res: "r = PDict res"
        by (cases r) simp_all
      with assms d \<open>map_of top (PStr ''analyzer'') = Some a\<close> mid Some
      have "map_of res (PStr k) = None"
        by (auto split: option.splits)
      with d \<open>map_of top (PStr ''analyzer'') = Some a\<close> mid Some res show ?thesis
        by (simp add: analyzer_result_def)
    qed
  qed
qed

text \<open>Where one field of \<open>analyzer.result\<close> can be looked up, so can its siblings.\<close>

lemma malformed_last:
  "field_at v [k] = Malformed \<longleftrightarrow> (\<forall>kvs. v \<noteq> PDict kvs)"
  by (cases v) (simp_all split: option.splits)

lemma malformed_last_two:
  "field_at v [j, k] = Malformed \<longleftrightarrow> field_at v [j, k'] = Malformed"
  by (cases v) (simp_all add: malformed_last split: option.splits)

lemma malformed_last_three:
  "field_at v [i, j, k] = Malformed \<longleftrightarrow> field_at v [i, j, k'] = Malformed"
  by (cases v) (simp_all add: malformed_last_two [of _ j k k'] split: option.splits)

lemma analyzer_result_sibling:
  assumes "field_at d [''analyzer'', ''result'', k] \<noteq> Malformed"
  shows "\<exists>v. bind_exc (analyzer_result d) (\<lambda>r. py_get r k' dflt) = Inr v"
proof (cases "field_at d [''analyzer'', ''result'', k']")
  case Absent
  then show ?thesis using analyzer_result_absent by blast
next
  case (Present v)
  then show ?thesis using analyzer_result_present by blast
next
  case Malformed
  with assms show ?thesis
    using malformed_last_three [of d "''analyzer''" "''result''" k k'] by simp
qed

lemma nonempty_positive: "nonempty_collection v \<Longrightarrow> and_len_positive v = Inr True"
  by (cases v) (simp_all add: and_len_positive_def)

lemma empty_not_positive: "empty_collection v \<Longrightarrow> and_len_positive v = Inr False"
  by (cases v) (simp_all add: and_len_positive_def)

lemma empty_or_absent_lookup:
  assumes "empty_or_absent (field_at d [''analyzer'', ''result'', k])" "empty_collection dflt"
  shows "\<exists>v. bind_exc (analyzer_result d) (\<lambda>r. py_get r k dflt) = Inr v \<and> empty_collection v"
proof (cases "field_at d [''analyzer'', ''result'', k]")
  case Absent
  with assms(2) show ?thesis using analyzer_result_absent by blast
next
  case (Present v)
  with assms(1) have "empty_collection v" by (simp add: empty_or_absent_def)
  with Present show ?thesis using analyzer_result_present by blast
next
  case Malformed
  with assms(1) show ?thesis by (simp add: empty_or_absent_def)
qed

lemma status_of_fields:
  assumes "bind_exc (analyzer_result d) (\<lambda>r. py_get r ''issues'' (PDict [])) = Inr i"
    and "bind_exc (analyzer_result d) (\<lambda>r. py_get r ''packages'' (PList [])) = Inr p"
  shows "determine_analysis_status d =
    bind_exc (and_len_positive i) (\<lambda>has_issues.
       if has_issues then Inr ''ERROR''
       else bind_exc (and_len_positive p) (\<lambda>has_packages.
         if has_packages then Inr ''SUCCESS'' else Inr ''INCOMPLETE''))"
  using assms by (simp add: determine_analysis_status_def)

text \<open>
  C1. A document that holds a non-empty collection (a list or a mapping with at least
  one entry) under \<open>analyzer.result.issues\<close> is classified \<open>ERROR\<close>, whatever the
  rest of the document holds, the packages included.
\<close>

theorem issues_give_error:
  assumes "field_at d [''analyzer'', ''result'', ''issues''] = Present v"
    and "nonempty_collection v"
  shows "determine_analysis_status d = Inr ''ERROR''"
proof -
  have "field_at d [''analyzer'', ''result'', ''issues''] \<noteq> Malformed"
    using assms(1) by simp
  then obtain p where
    "bind_exc (analyzer_result d) (\<lambda>r. py_get r ''packages'' (PList [])) = Inr p"
    using analyzer_result_sibling by blast
  with analyzer_result_present [OF assms(1)] show ?thesis
    by (simp add: status_of_fields nonempty_positive [OF assms(2)])
qed

theorem issues_give_error_witness:
  "field_at doc_issues [''analyzer'', ''result'', ''issues'']
     = Present (PDict [(PStr ''Gradle::app:1.0'',
                     PList [PDict [(PStr ''severity'', PStr ''ERROR''),
                                   (PStr ''message'', PStr ''resolution failed'')]])])
   \<and> field_at doc_issues [''analyzer'', ''result'', ''packages''] = Present (PInt 5)
   \<and> determine_analysis_status doc_issues = Inr ''ERROR''"
proof -
  have f: "field_at doc_issues [''analyzer'', ''result'', ''issues'']
     = Present (PDict [(PStr ''Gradle::app:1.0'',
                     PList [PDict [(PStr ''severity'', PStr ''ERROR''),
                                   (PStr ''message'', PStr ''resolution failed'')]])])"
    by (simp add: doc_issues_def)
  have p: "field_at doc_issues [''analyzer'', ''result'', ''packages''] = Present (PInt 5)"
    by (simp add: doc_issues_def)
  from f p issues_give_error [OF f] show ?thesis by simp
qed

text \<open>
  C2. A document whose \<open>analyzer.result.issues\<close> is an empty collection (or is
  missing) and whose \<open>analyzer.result.packages\<close> is a non-empty list is classified
  \<open>SUCCESS\<close>.
\<close>

theorem packages_give_success:
  assumes "empty_or_absent (field_at d [''analyzer'', ''result'', ''issues''])"
    and "field_at d [''analyzer'', ''result'', ''packages''] = Present (PList ps)"
    and "ps \<noteq> []"
  shows "determine_analysis_status d = Inr ''SUCCESS''"
proof -
  obtain i where i: "bind_exc (analyzer_result d) (\<lambda>r. py_get r ''issues'' (PDict [])) = Inr i"
    and e: "empty_collection i"
    using empty_or_absent_lookup [OF assms(1), of "PDict []"] by auto
  have "and_len_positive (PList ps) = Inr True"
    using assms(3) by (simp add: nonempty_positive)
  with i analyzer_result_present [OF assms(2)] show ?thesis
    by (simp add: status_of_fields empty_not_positive [OF e])
qed

theorem packages_give_success_witness:
  "field_at doc_packages [''analyzer'', ''result'', ''issues''] = Present (PDict [])
   \<and> determine_analysis_status doc_packages = Inr ''SUCCESS''"
proof -
  have i: "field_at doc_packages [''analyzer'', ''result'', ''issues''] = Present (PDict [])"
    by (simp add: doc_packages_def)
  then have e: "empty_or_absent (field_at doc_packages [''analyzer'', ''result'', ''issues''])"
    by (simp add: empty_or_absent_def)
  have p: "field_at doc_packages [''analyzer'', ''result'', ''packages'']
    = Present (PList [PDict [(PStr ''id'', PStr ''Maven:org.a:a:1.0''),
                                 (PStr ''declared_licenses'', PList [PStr ''MIT'']),
                                 (PStr ''homepage_url'', PStr ''https://a.example'')],
                          PDict [(PStr ''id'', PStr ''Maven:org.b:b:2.0'')]])"
    by (simp add: doc_packages_def)
  from i packages_give_success [OF e p] show ?thesis by simp
qed

text \<open>
  C3. A document in which both \<open>analyzer.result.issues\<close> and
  \<open>analyzer.result.packages\<close> are empty collections or missing (a key of the path is
  not there) is classified \<open>INCOMPLETE\<close>.
\<close>

theorem nothing_gives_incomplete:
  assumes "empty_or_absent (field_at d [''analyzer'', ''result'', ''issues''])"
    and "empty_or_absent (field_at d [''analyzer'', ''result'', ''packages''])"
  shows "determine_analysis_status d = Inr ''INCOMPLETE''"
proof -
  obtain i where i: "bind_exc (analyzer_result d) (\<lambda>r. py_get r ''issues'' (PDict [])) = Inr i"
    and ei: "empty_collection i"
    using empty_or_absent_lookup [OF assms(1), of "PDict []"] by auto
  obtain p where p: "bind_exc (analyzer_result d) (\<lambda>r. py_get r ''packages'' (PList [])) = Inr p"
    and ep: "empty_collection p"
    using empty_or_absent_lookup [OF assms(2), of "PList []"] by auto
  from i p show ?thesis
    by (simp add: status_of_fields empty_not_positive [OF ei] empty_not_positive [OF ep])
qed

theorem nothing_gives_incomplete_witness:
  "field_at doc_bare [''analyzer'', ''result'', ''issues''] = Absent
   \<and> field_at doc_bare [''analyzer'', ''result'', ''packages''] = Absent
   \<and> determine_analysis_status doc_bare = Inr ''INCOMPLETE''"
proof -
  have i: "field_at doc_bare [''analyzer'', ''result'', ''issues''] = Absent"
    and p: "field_at doc_bare [''analyzer'', ''result'', ''packages''] = Absent"
    by (simp_all add: doc_bare_def)
  have "empty_or_absent (field_at doc_bare [''analyzer'', ''result'', ''issues''])"
    and "empty_or_absent (field_at doc_bare [''analyzer'', ''result'', ''packages''])"
    by (simp_all add: i p empty_or_absent_def)
  with i p nothing_gives_incomplete [of doc_bare] show ?thesis by simp
qed

section \<open>Properties of the run\<close>


lemma and_then_pure:
  "and_then (pure r) f = (case r of Inl e \<Rightarrow> ([], Inl e) | Inr x \<Rightarrow> f x)"
  by (cases r) (simp_all add: and_then_def pure_def split: prod.splits)

lemma and_then_events:
  "fst (and_then m f) = fst m @ (case snd m of Inl e \<Rightarrow> [] | Inr x \<Rightarrow> fst (f x))"
  by (cases m; cases "snd m") (auto simp: and_then_def split: prod.splits)

lemma and_then_result:
  "snd (and_then m f) = (case snd m of Inl e \<Rightarrow> Inl e | Inr x \<Rightarrow> snd (f x))"
  by (cases m; cases "snd m") (auto simp: and_then_def split: prod.splits)

lemma and_then_Inr: "and_then (t, Inr x) f = (t @ fst (f x), snd (f x))"
  by (simp add: and_then_def split: prod.splits)


lemma print_ok: "prints w s \<Longrightarrow> print w s = ([Print s], Inr ())"
  by (auto simp: print_def prints_def)


lemma prints_equals [simp]: "prints w (replicate n CHR ''='')"
  by (simp add: prints_def ascii_def list_all_iff)

lemma prints_preview [simp]: "prints w ''\<newline>Report Preview:''"
  by (simp add: prints_def ascii_def)

lemma prints_no_key [simp]:
  "prints w ''ERROR: AZURE_OPENAI_API_KEY environment variable not set!''"
  "prints w ''Please set it in your GitHub Secrets.''"
  by (simp_all add: prints_def ascii_def)




lemma api_key_config: "api_key (azure_config w) = environ w ''AZURE_OPENAI_API_KEY''"
  by (simp add: azure_config_def)

lemma main_no_key:
  assumes "key_missing (environ w ''AZURE_OPENAI_API_KEY'')"
  shows "main w = ([Print ''ERROR: AZURE_OPENAI_API_KEY environment variable not set!'',
                    Print ''Please set it in your GitHub Secrets.''], 1)"
  using assms by (simp add: main_def api_key_config print_ok and_then_Inr)

lemma main_running:
  assumes "\<not> key_missing (environ w ''AZURE_OPENAI_API_KEY'')"
    and "construct_client w (azure_config w) = None"
  shows "main w =
    (case try_body w (init_generator (azure_config w)) input_file (output_file w) of
       (t, Inr _) \<Rightarrow> (ClientConstructed (azure_config w) # t, 0)
     | (t, Inl e) \<Rightarrow> except_exception w (ClientConstructed (azure_config w) # t) e)"
  using assms by (simp add: main_def api_key_config split: prod.splits sum.splits)

lemma unhandled_exception: "is_exception e \<Longrightarrow> unhandled w t e = (t @ [Unhandled e], 1)"
  by (simp add: unhandled_def)




lemma try_body_done:
  assumes "generate_report w g i = (t, Inr r)" and "write_file w out r = None"
    and "prints w (''Report saved to: '' @ out)" and "prints w (take 1000 r @ ''...\<newline>'')"
    and "prints w (''\<newline>Successfully generated: '' @ out)"
  shows "try_body w g i out =
     (t @ [WriteFile out r, Print (''Report saved to: '' @ out),
           Print ''\<newline>Report Preview:'', Print (replicate 80 CHR ''=''),
           Print (take 1000 r @ ''...\<newline>''), Print (replicate 80 CHR ''=''),
           Print (''\<newline>Successfully generated: '' @ out)], Inr ())"
  using assms by (simp add: try_body_def save_report_def print_ok and_then_Inr)


text \<open>The example runs, step by step.\<close>

lemma doc_packages_status: "determine_analysis_status doc_packages = Inr ''SUCCESS''"
  by (simp add: doc_packages_def determine_analysis_status_def analyzer_result_def
      and_len_positive_def)

lemmas run_steps =
  generate_report_def and_then_def pure_def load_ort_results_def
  input_file_def doc_packages_def extract_key_info_def get2_def
  determine_analysis_status_def analyzer_result_def and_len_positive_def
  generate_curation_prompt_def prompt_head_def package_entry_def format_value_def
  chat_completions_create_def first_content_def concat_report_def metadata_def

lemma world_ok_report:
  "snd (generate_report world_ok (init_generator (azure_config world_ok)) input_file) =
     Inr report_ok"
  by (simp add: run_steps world_ok_def report_ok_def)







text \<open>
  C4. Without the variable \<open>AZURE_OPENAI_API_KEY\<close> the run consists of the two
  printed lines: no client is constructed, no chat request is made, and the exit
  status is 1.
\<close>

theorem no_key_no_network:
  assumes "environ w ''AZURE_OPENAI_API_KEY'' = None"
  shows "snd (main w) = 1
    \<and> (\<forall>ev \<in> set (fst (main w)). \<not> network_event ev)
    \<and> fst (main w) = [Print ''ERROR: AZURE_OPENAI_API_KEY environment variable not set!'',
                       Print ''Please set it in your GitHub Secrets.'']"
  using assms by (simp add: main_no_key key_missing_def)

theorem no_key_no_network_witness:
  "environ world_no_key ''AZURE_OPENAI_API_KEY'' = None
   \<and> main world_no_key =
       ([Print ''ERROR: AZURE_OPENAI_API_KEY environment variable not set!'',
         Print ''Please set it in your GitHub Secrets.''], 1)"
proof -
  have k: "environ world_no_key ''AZURE_OPENAI_API_KEY'' = None"
    by (simp add: world_no_key_def)
  from no_key_no_network [OF k] have "snd (main world_no_key) = 1"
    and "fst (main world_no_key) =
       [Print ''ERROR: AZURE_OPENAI_API_KEY environment variable not set!'',
        Print ''Please set it in your GitHub Secrets.'']"
    by simp_all
  with k show ?thesis by (simp add: prod_eq_iff)
qed

text \<open>
  C10. A key that is set to the empty string is as good as none: the run is the
  same as with the variable removed, that is the two printed lines, no client, no
  chat request, exit status 1.
\<close>

theorem empty_key_as_absent:
  assumes "environ w ''AZURE_OPENAI_API_KEY'' = Some ''''"
  shows "main w = main (w\<lparr>environ := (environ w)(''AZURE_OPENAI_API_KEY'' := None)\<rparr>)
    \<and> snd (main w) = 1
    \<and> (\<forall>ev \<in> set (fst (main w)). \<not> network_event ev)
    \<and> fst (main w) = [Print ''ERROR: AZURE_OPENAI_API_KEY environment variable not set!'',
                       Print ''Please set it in your GitHub Secrets.'']"
  using assms by (simp add: main_no_key key_missing_def)

theorem empty_key_as_absent_witness:
  "environ world_empty_key ''AZURE_OPENAI_API_KEY'' = Some ''''
   \<and> main world_empty_key =
       ([Print ''ERROR: AZURE_OPENAI_API_KEY environment variable not set!'',
         Print ''Please set it in your GitHub Secrets.''], 1)"
proof -
  have k: "environ world_empty_key ''AZURE_OPENAI_API_KEY'' = Some ''''"
    by (simp add: world_empty_key_def)
  from empty_key_as_absent [OF k, THEN conjunct2] have "snd (main world_empty_key) = 1"
    and "fst (main world_empty_key) =
       [Print ''ERROR: AZURE_OPENAI_API_KEY environment variable not set!'',
        Print ''Please set it in your GitHub Secrets.'']"
    by simp_all
  with k show ?thesis by (simp add: prod_eq_iff)
qed




section \<open>Properties of the prompt\<close>


lemma package_loop_entries:
  "package_loop pkgs acc = Inr p \<longleftrightarrow>
     (\<exists>entries. map package_entry pkgs = map Inr entries \<and> p = acc @ concat entries)"
proof (induction pkgs arbitrary: acc)
  case Nil
  then show ?case by auto
next
  case (Cons pkg pkgs)
  show ?case
  proof (cases "package_entry pkg")
    case (Inl e)
    then show ?thesis by (auto simp: map_eq_Cons_conv)
  next
    case (Inr entry)
    then show ?thesis by (auto simp: Cons.IH map_eq_Cons_conv Cons_eq_map_conv)
  qed
qed

lemma issue_loop_shift:
  "issue_loop xs (a @ b) = Inr p \<longleftrightarrow> (\<exists>r. issue_loop xs b = Inr r \<and> p = a @ r)"
proof (induction xs arbitrary: b)
  case Nil
  then show ?case by auto
next
  case (Cons x xs)
  show ?case
  proof (cases "issue_entry x")
    case (Inl e)
    then show ?thesis by simp
  next
    case (Inr entry)
    then show ?thesis using Cons.IH [of "b @ entry"] by simp
  qed
qed

lemma project_loop_shift:
  "project_loop items (a @ b) = Inr p \<longleftrightarrow> (\<exists>r. project_loop items b = Inr r \<and> p = a @ r)"
proof (induction items arbitrary: b p)
  case Nil
  then show ?case by auto
next
  case (Cons item items)
  obtain k v where item: "item = (k, v)" by (cases item)
  show ?case
  proof (cases "format_value k")
    case (Inl e)
    with item show ?thesis by simp
  next
    case kt: (Inr key_text)
    show ?thesis
    proof (cases "py_iter v")
      case (Inl e)
      with item kt show ?thesis by simp
    next
      case (Inr iss)
      let ?line = "''\<newline>\<newline>Project: '' @ key_text"
      show ?thesis
      proof (cases "issue_loop iss (b @ ?line)")
        case (Inl e)
        then have "\<And>q. issue_loop iss (a @ b @ ?line) \<noteq> Inr q"
          using issue_loop_shift [of iss a "b @ ?line"] by auto
        then have "\<exists>e'. issue_loop iss (a @ b @ ?line) = Inl e'"
          by (cases "issue_loop iss (a @ b @ ?line)") auto
        with Inl item kt \<open>py_iter v = Inr iss\<close> show ?thesis by auto
      next
        case (Inr r)
        then have "issue_loop iss (a @ b @ ?line) = Inr (a @ r)"
          using issue_loop_shift [of iss a "b @ ?line"] by auto
        with Inr item kt \<open>py_iter v = Inr iss\<close> show ?thesis
          using Cons.IH [of r p] by simp
      qed
    qed
  qed
qed

lemma project_loop_extends:
  "project_loop items acc = Inr p \<Longrightarrow> \<exists>rest. p = acc @ rest"
  using project_loop_shift [of items acc "[]" p] by auto


lemma prompt_success:
  assumes "prompt_head ki ''SUCCESS'' = Inr h" and "packages ki = PList ps"
  shows "generate_curation_prompt ki ''SUCCESS'' = Inr p \<longleftrightarrow>
    (\<exists>entries. map package_entry (take 10 ps) = map Inr entries
       \<and> p = h @ success_template @ concat entries @ reminder)"
  using assms
  by (auto simp: generate_curation_prompt_def bind_exc_eq_Inr package_loop_entries)

lemma prompt_success_begins:
  assumes "generate_curation_prompt ki ''SUCCESS'' = Inr p"
  shows "\<exists>h rest. prompt_head ki ''SUCCESS'' = Inr h \<and> p = h @ success_template @ rest"
  using assms
  by (auto simp: generate_curation_prompt_def bind_exc_eq_Inr package_loop_entries)

lemma prompt_head_packages:
  "length ps' = length ps \<Longrightarrow>
   prompt_head (ki\<lparr>packages := PList ps'\<rparr>) st = prompt_head (ki\<lparr>packages := PList ps\<rparr>) st"
  by (simp add: prompt_head_def)



text \<open>
  C8. With the status \<open>SUCCESS\<close> and a list of packages, the prompt is the opening,
  the curation template, the entries of the first ten packages in their order, and
  the closing reminder, provided each of these ten has an entry (otherwise there is
  no prompt). Packages after the tenth have no influence on it beyond their number,
  which the opening reports.
\<close>

theorem first_ten_packages_only:
  assumes "packages ki = PList ps" and "prompt_head ki ''SUCCESS'' = Inr h"
  shows "(\<forall>p. generate_curation_prompt ki ''SUCCESS'' = Inr p \<longleftrightarrow>
            (\<exists>entries. map package_entry (take 10 ps) = map Inr entries
               \<and> p = h @ success_template @ concat entries @ reminder))
    \<and> (\<forall>ps'. length ps' = length ps \<and> take 10 ps' = take 10 ps \<longrightarrow>
            generate_curation_prompt (ki\<lparr>packages := PList ps'\<rparr>) ''SUCCESS''
              = generate_curation_prompt ki ''SUCCESS'')"
proof (intro conjI allI impI)
  fix p
  show "generate_curation_prompt ki ''SUCCESS'' = Inr p \<longleftrightarrow>
            (\<exists>entries. map package_entry (take 10 ps) = map Inr entries
               \<and> p = h @ success_template @ concat entries @ reminder)"
    by (rule prompt_success [OF assms(2,1)])
next
  fix ps' assume "length ps' = length ps \<and> take 10 ps' = take 10 ps"
  then show "generate_curation_prompt (ki\<lparr>packages := PList ps'\<rparr>) ''SUCCESS''
              = generate_curation_prompt ki ''SUCCESS''"
    using assms(1) by (simp add: generate_curation_prompt_def prompt_head_def)
qed

theorem first_ten_packages_only_witness:
  "packages ki_eleven = PList eleven_packages
   \<and> prompt_head ki_eleven ''SUCCESS'' = Inr head_eleven
   \<and> generate_curation_prompt ki_eleven ''SUCCESS''
       = Inr (head_eleven
              @ success_template
              @ concat  ten_entries
              @ reminder)
   \<and> generate_curation_prompt (ki_eleven\<lparr>packages := PList (butlast eleven_packages @ [PNone])\<rparr>) ''SUCCESS''
       = generate_curation_prompt ki_eleven ''SUCCESS''"
proof -
  have p: "packages ki_eleven = PList eleven_packages" by (simp add: ki_eleven_def)
  have h: "prompt_head ki_eleven ''SUCCESS'' = Inr head_eleven"
    by (simp add: prompt_head_def format_value_def ki_eleven_def eleven_packages_def digit_def
        head_eleven_def)
  have e: "map package_entry (take 10 eleven_packages) = map Inr  ten_entries"
    by (simp add: eleven_packages_def package_entry_def format_value_def ten_entries_def
        repr_str_def repr_char_def printable_def backslash_def Let_def)
  have l: "length (butlast eleven_packages @ [PNone]) = length eleven_packages
    \<and> take 10 (butlast eleven_packages @ [PNone]) = take 10 eleven_packages"
    by (simp add: eleven_packages_def)
  note a = first_ten_packages_only [OF p h]
  from a e have "generate_curation_prompt ki_eleven ''SUCCESS''
       = Inr (head_eleven
              @ success_template
              @ concat  ten_entries
              @ reminder)"
    by blast
  moreover from a l
  have "generate_curation_prompt (ki_eleven\<lparr>packages := PList (butlast eleven_packages @ [PNone])\<rparr>) ''SUCCESS''
       = generate_curation_prompt ki_eleven ''SUCCESS''"
    by blast
  ultimately show ?thesis using p h by blast
qed

section \<open>Properties of the report\<close>

lemma slice_eq_Inr:
  "py_slice_to v n = Inr x \<longleftrightarrow>
     (\<exists>s. v = PStr s \<and> x = PStr (take n s)) \<or> (\<exists>xs. v = PList xs \<and> x = PList (take n xs))"
  by (cases v) auto

lemma first_content_eq_Inr: "first_content cs = Inr c \<longleftrightarrow> (\<exists>rest. cs = c # rest)"
  by (cases cs) (auto simp: first_content_def)

lemma concat_report_eq_Inr: "concat_report h r = Inr s \<longleftrightarrow> (\<exists>body. r = Some body \<and> s = h @ body)"
  by (cases r) (auto simp: concat_report_def)

lemma format_value_eq_Inr: "format_value v = Inr s \<longleftrightarrow> str_ok v \<and> s = py_str v"
  by (auto simp: format_value_def)

lemma format_value_ok: "str_ok v \<Longrightarrow> format_value v = Inr (py_str v)"
  by (simp add: format_value_def)

lemma str_ok_slice:
  assumes "str_ok v" and "py_slice_to v n = Inr x"
  shows "str_ok x"
proof -
  from assms(2) consider s where "v = PStr s" "x = PStr (take n s)"
    | xs where "v = PList xs" "x = PList (take n xs)"
    unfolding slice_eq_Inr by blast
  then show ?thesis
  proof cases
    case 1
    then show ?thesis by simp
  next
    case 2
    with assms(1) show ?thesis
      by (auto simp: list_all_iff dest: in_set_takeD)
  qed
qed

text \<open>A prompt was only produced if the repository and the revision could be formatted.\<close>

lemma prompt_formats_head:
  assumes "generate_curation_prompt ki st = Inr p"
  shows "str_ok (repository_url ki)" and "str_ok (revision ki)"
  using assms
  by (auto simp: generate_curation_prompt_def prompt_head_def bind_exc_eq_Inr format_value_eq_Inr)

lemma generate_report_result:
  "snd (generate_report w g f) =
     bind_exc (load_yaml w f) (\<lambda>d.
     bind_exc (extract_key_info d) (\<lambda>ki.
     bind_exc (determine_analysis_status d) (\<lambda>st.
     bind_exc (generate_curation_prompt ki st) (\<lambda>p.
     bind_exc (chat_create w (self_client g) \<lparr>model = self_deployment_name g,
        messages = [(''system'', system_message), (''user'', p)]\<rparr>) (\<lambda>cs.
     bind_exc (first_content cs) (\<lambda>r.
     bind_exc (format_value (repository_url ki)) (\<lambda>url.
     bind_exc (py_slice_to (revision ki) 8) (\<lambda>cut.
     bind_exc (format_value cut) (\<lambda>rev8.
       concat_report (metadata (now_header w) st url rev8) r)))))))))"
  by (simp add: generate_report_def and_then_def pure_def load_ort_results_def
      chat_completions_create_def bind_exc_def split: sum.splits prod.splits)

lemma generate_report_returns:
  "snd (generate_report w g f) = Inr s \<longleftrightarrow>
     (\<exists>d ki st p body cs rev8.
        load_yaml w f = Inr d \<and> extract_key_info d = Inr ki
        \<and> determine_analysis_status d = Inr st \<and> generate_curation_prompt ki st = Inr p
        \<and> chat_create w (self_client g)
             \<lparr>model = self_deployment_name g,
              messages = [(''system'', system_message), (''user'', p)]\<rparr> = Inr (Some body # cs)
        \<and> py_slice_to (revision ki) 8 = Inr rev8
        \<and> s = metadata (now_header w) st (py_str (repository_url ki)) (py_str rev8) @ body)"
  (is "?L \<longleftrightarrow> ?R")
proof
  assume ?L
  then show ?R
    unfolding generate_report_result bind_exc_eq_Inr first_content_eq_Inr
      concat_report_eq_Inr format_value_eq_Inr
    by blast
next
  assume ?R
  then obtain d ki st p body cs rev8 where
    l: "load_yaml w f = Inr d" and k: "extract_key_info d = Inr ki"
    and t: "determine_analysis_status d = Inr st" and p: "generate_curation_prompt ki st = Inr p"
    and c: "chat_create w (self_client g)
             \<lparr>model = self_deployment_name g,
              messages = [(''system'', system_message), (''user'', p)]\<rparr> = Inr (Some body # cs)"
    and v: "py_slice_to (revision ki) 8 = Inr rev8"
    and s: "s = metadata (now_header w) st (py_str (repository_url ki)) (py_str rev8) @ body"
    by blast
  from prompt_formats_head [OF p] str_ok_slice [OF _ v]
  have "str_ok (repository_url ki)" and "str_ok rev8" by simp_all
  with l k t p c v s show ?L
    unfolding generate_report_result
    by (simp add: first_content_def format_value_ok concat_report_def)
qed

lemma print_no_write: "WriteFile p c \<notin> set (fst (print w s))"
  by (simp add: print_def split: option.splits)

lemma and_then_no_write:
  assumes "WriteFile p c \<notin> set (fst m)" and "\<And>x. WriteFile p c \<notin> set (fst (f x))"
  shows "WriteFile p c \<notin> set (fst (and_then m f))"
  using assms by (simp add: and_then_events split: sum.splits)

lemma generate_report_no_write: "WriteFile p c \<notin> set (fst (generate_report w g f))"
  by (simp add: generate_report_def and_then_events and_then_pure load_ort_results_def
      chat_completions_create_def pure_def Let_def split: sum.splits)

lemma save_report_writes:
  assumes "WriteFile path content \<in> set (fst (save_report w report out))"
  shows "content = report"
proof -
  have "fst (save_report w report out) =
    WriteFile out report # (case write_file w out report of
       Some e \<Rightarrow> [] | None \<Rightarrow> fst (print w (''Report saved to: '' @ out)))"
    by (simp add: save_report_def and_then_events split: option.splits)
  with assms print_no_write [of path content w "''Report saved to: '' @ out"] show ?thesis
    by (simp split: option.splits)
qed

lemma try_body_writes:
  assumes "WriteFile path content \<in> set (fst (try_body w g i out))"
  shows "snd (generate_report w g i) = Inr content"
proof (cases "snd (generate_report w g i)")
  case (Inl e)
  with assms generate_report_no_write [of path content w g i] show ?thesis
    by (simp add: try_body_def and_then_events)
next
  case (Inr report)
  let ?rest = "\<lambda>u::unit.
     and_then (print w ''\<newline>Report Preview:'') (\<lambda>_.
     and_then (print w (replicate 80 CHR ''='')) (\<lambda>_.
     and_then (print w (take 1000 report @ ''...\<newline>'')) (\<lambda>_.
     and_then (print w (replicate 80 CHR ''='')) (\<lambda>_.
       print w (''\<newline>Successfully generated: '' @ out)))))"
  have rest: "WriteFile path content \<notin> set (fst (?rest u))" for u
    by (intro and_then_no_write print_no_write)
  have "fst (try_body w g i out) =
      fst (generate_report w g i) @ fst (and_then (save_report w report out) ?rest)"
    using Inr by (simp add: try_body_def and_then_events [of "generate_report w g i"])
  with assms generate_report_no_write [of path content w g i]
  have "WriteFile path content \<in> set (fst (and_then (save_report w report out) ?rest))"
    by simp
  then have "WriteFile path content \<in> set (fst (save_report w report out))"
    using and_then_no_write [of path content "save_report w report out" ?rest] rest by blast
  from save_report_writes [OF this] Inr show ?thesis by simp
qed

lemma except_exception_events:
  assumes "WriteFile p c \<in> set (fst (except_exception w t e))"
  shows "WriteFile p c \<in> set t"
proof (cases "is_exception e")
  case False
  with assms show ?thesis by (simp add: except_exception_def unhandled_def)
next
  case True
  obtain t' r where pr: "print w (''Error generating report: '' @ exc_str e) = (t', r)"
    by (cases "print w (''Error generating report: '' @ exc_str e)")
  with print_no_write [of p c w "''Error generating report: '' @ exc_str e"]
  have "WriteFile p c \<notin> set t'" by simp
  with assms True pr show ?thesis
    by (cases r) (simp_all add: except_exception_def unhandled_def)
qed

lemma main_writes:
  assumes "WriteFile path content \<in> set (fst (main w))"
  shows "snd (generate_report w (init_generator (azure_config w)) input_file) = Inr content"
proof -
  let ?b = "try_body w (init_generator (azure_config w)) input_file (output_file w)"
  obtain t r where b: "?b = (t, r)" by (cases ?b)
  have k: "\<not> key_missing (environ w ''AZURE_OPENAI_API_KEY'')"
    using assms main_no_key [of w] by auto
  have c: "construct_client w (azure_config w) = None"
  proof (cases "construct_client w (azure_config w)")
    case (Some e)
    with k assms show ?thesis by (simp add: main_def api_key_config unhandled_def)
  qed simp
  have "WriteFile path content \<in> set t"
  proof (cases r)
    case (Inl e)
    with b assms
    have "WriteFile path content \<in> set (fst (except_exception w (ClientConstructed (azure_config w) # t) e))"
      by (simp add: main_running [OF k c])
    from except_exception_events [OF this] show ?thesis by simp
  next
    case (Inr u)
    with b assms show ?thesis by (simp add: main_running [OF k c])
  qed
  with b show ?thesis
    using try_body_writes [of path content w "init_generator (azure_config w)" input_file "output_file w"]
    by simp
qed

lemma world_ok_writes:
  "WriteFile (output_file world_ok) report_ok \<in> set (fst (main world_ok))"
proof -
  have k: "\<not> key_missing (environ world_ok ''AZURE_OPENAI_API_KEY'')"
    by (simp add: world_ok_def key_missing_def)
  have c: "construct_client world_ok (azure_config world_ok) = None"
    by (simp add: world_ok_def)
  have f: "write_file world_ok (output_file world_ok) report_ok = None"
    by (simp add: world_ok_def)
  obtain t where g: "generate_report world_ok (init_generator (azure_config world_ok)) input_file
      = (t, Inr report_ok)"
    using world_ok_report
    by (cases "generate_report world_ok (init_generator (azure_config world_ok)) input_file") simp
  have p: "prints world_ok s" for s
    by (simp add: prints_def world_ok_def)
  show ?thesis
    using try_body_done [OF g f p p p] by (simp add: main_running [OF k c])
qed

text \<open>
  C7. \<open>generate_report\<close> returns a string exactly when the document loads, the
  extraction, the classification and the prompt succeed, the service answers with a
  first choice that has a content, and the revision can be cut; the string is then
  the header \<open># ORT Analysis Curation Report\<close> with the time, the status found, the
  repository and the first eight characters of the revision (of a revision that is
  a list, its first eight elements), followed by that content. Whatever the run
  writes to a file is such a string.
\<close>

theorem report_begins_with_metadata:
  "(snd (generate_report w g f) = Inr s \<longleftrightarrow>
     (\<exists>d ki st p body cs rev8.
        load_yaml w f = Inr d \<and> extract_key_info d = Inr ki
        \<and> determine_analysis_status d = Inr st \<and> generate_curation_prompt ki st = Inr p
        \<and> chat_create w (self_client g)
             \<lparr>model = self_deployment_name g,
              messages = [(''system'', system_message), (''user'', p)]\<rparr> = Inr (Some body # cs)
        \<and> ((\<exists>r. revision ki = PStr r \<and> rev8 = PStr (take 8 r))
             \<or> (\<exists>xs. revision ki = PList xs \<and> rev8 = PList (take 8 xs)))
        \<and> s = ''# ORT Analysis Curation Report\<newline>\<newline>**Generated:** '' @ now_header w
              @ ''  \<newline>**Status:** '' @ st
              @ ''  \<newline>**Repository:** '' @ py_str (repository_url ki)
              @ ''  \<newline>**Revision:** '' @ py_str rev8 @ ''...\<newline>\<newline>---\<newline>\<newline>''
              @ body))
   \<and> (\<forall>path content. WriteFile path content \<in> set (fst (main w)) \<longrightarrow>
         snd (generate_report w (init_generator (azure_config w)) input_file) = Inr content)"
proof (intro conjI allI impI)
  show "snd (generate_report w g f) = Inr s \<longleftrightarrow>
     (\<exists>d ki st p body cs rev8.
        load_yaml w f = Inr d \<and> extract_key_info d = Inr ki
        \<and> determine_analysis_status d = Inr st \<and> generate_curation_prompt ki st = Inr p
        \<and> chat_create w (self_client g)
             \<lparr>model = self_deployment_name g,
              messages = [(''system'', system_message), (''user'', p)]\<rparr> = Inr (Some body # cs)
        \<and> ((\<exists>r. revision ki = PStr r \<and> rev8 = PStr (take 8 r))
             \<or> (\<exists>xs. revision ki = PList xs \<and> rev8 = PList (take 8 xs)))
        \<and> s = ''# ORT Analysis Curation Report\<newline>\<newline>**Generated:** '' @ now_header w
              @ ''  \<newline>**Status:** '' @ st
              @ ''  \<newline>**Repository:** '' @ py_str (repository_url ki)
              @ ''  \<newline>**Revision:** '' @ py_str rev8 @ ''...\<newline>\<newline>---\<newline>\<newline>''
              @ body)"
    unfolding generate_report_returns slice_eq_Inr metadata_def
    by (simp only: append_assoc append_Cons append_Nil)
next
  fix path content assume "WriteFile path content \<in> set (fst (main w))"
  then show "snd (generate_report w (init_generator (azure_config w)) input_file) = Inr content"
    using main_writes by blast
qed

theorem report_begins_with_metadata_witness:
  "snd (generate_report world_ok (init_generator (azure_config world_ok)) input_file) = Inr report_ok
   \<and> WriteFile (output_file world_ok) report_ok \<in> set (fst (main world_ok))
   \<and> (\<exists>d ki st p body cs.
        load_yaml world_ok input_file = Inr d \<and> extract_key_info d = Inr ki
        \<and> determine_analysis_status d = Inr st \<and> generate_curation_prompt ki st = Inr p
        \<and> chat_create world_ok (self_client (init_generator (azure_config world_ok)))
             \<lparr>model = self_deployment_name (init_generator (azure_config world_ok)),
              messages = [(''system'', system_message), (''user'', p)]\<rparr> = Inr (Some body # cs)
        \<and> revision ki = PStr ''0123456789abcdef''
        \<and> report_ok = ''# ORT Analysis Curation Report\<newline>\<newline>**Generated:** '' @ now_header world_ok
              @ ''  \<newline>**Status:** '' @ st
              @ ''  \<newline>**Repository:** '' @ py_str (repository_url ki)
              @ ''  \<newline>**Revision:** '' @ take 8 ''0123456789abcdef'' @ ''...\<newline>\<newline>---\<newline>\<newline>''
              @ body)"
proof -
  let ?g = "init_generator (azure_config world_ok)"
  note a = report_begins_with_metadata [of world_ok ?g input_file report_ok]
  from a world_ok_writes
  have r: "snd (generate_report world_ok ?g input_file) = Inr report_ok"
    by blast
  with a obtain d ki st p body cs rev8 where
    l: "load_yaml world_ok input_file = Inr d" and k: "extract_key_info d = Inr ki"
    and s: "determine_analysis_status d = Inr st" and p: "generate_curation_prompt ki st = Inr p"
    and c: "chat_create world_ok (self_client ?g)
             \<lparr>model = self_deployment_name ?g,
              messages = [(''system'', system_message), (''user'', p)]\<rparr> = Inr (Some body # cs)"
    and v: "(\<exists>r. revision ki = PStr r \<and> rev8 = PStr (take 8 r))
             \<or> (\<exists>xs. revision ki = PList xs \<and> rev8 = PList (take 8 xs))"
    and t: "report_ok = ''# ORT Analysis Curation Report\<newline>\<newline>**Generated:** '' @ now_header world_ok
              @ ''  \<newline>**Status:** '' @ st
              @ ''  \<newline>**Repository:** '' @ py_str (repository_url ki)
              @ ''  \<newline>**Revision:** '' @ py_str rev8 @ ''...\<newline>\<newline>---\<newline>\<newline>''
              @ body"
    by blast
  from l have d: "d = doc_packages"
    by (simp add: world_ok_def input_file_def)
  with k have rev: "revision ki = PStr ''0123456789abcdef''"
    by (auto simp: doc_packages_def extract_key_info_def get2_def)
  with v have "rev8 = PStr (take 8 ''0123456789abcdef'')" by auto
  with t have "report_ok = ''# ORT Analysis Curation Report\<newline>\<newline>**Generated:** '' @ now_header world_ok
              @ ''  \<newline>**Status:** '' @ st
              @ ''  \<newline>**Repository:** '' @ py_str (repository_url ki)
              @ ''  \<newline>**Revision:** '' @ take 8 ''0123456789abcdef'' @ ''...\<newline>\<newline>---\<newline>\<newline>''
              @ body"
    by simp
  with r world_ok_writes l k s p c rev show ?thesis by blast
qed

section \<open>Properties of the extraction\<close>

lemma field_step:
  assumes "field_at d (a # k # ks) \<noteq> Malformed"
  shows "\<exists>x. py_get d a (PDict []) = Inr x \<and> field_at x (k # ks) \<noteq> Malformed
    \<and> value_or (field_at x (k # ks)) dflt = value_or (field_at d (a # k # ks)) dflt"
proof -
  from assms obtain top where d: "d = PDict top" by (cases d) simp_all
  show ?thesis
  proof (cases "map_of top (PStr a)")
    case None
    with d show ?thesis by simp
  next
    case (Some v)
    with d assms show ?thesis by simp
  qed
qed

lemma field_leaf:
  assumes "field_at d [k] \<noteq> Malformed"
  shows "py_get d k dflt = Inr (value_or (field_at d [k]) dflt)"
proof -
  from assms obtain top where d: "d = PDict top" by (cases d) simp_all
  then show ?thesis by (simp split: option.splits)
qed

lemma field_sibling: "field_at d [k] \<noteq> Malformed \<Longrightarrow> field_at d [k'] \<noteq> Malformed"
  by (simp add: malformed_last)

lemma field_sibling2:
  "field_at d [j, k] \<noteq> Malformed \<Longrightarrow> field_at d [j, k'] \<noteq> Malformed"
  using malformed_last_two [of d j k k'] by simp

lemma field_sibling3:
  "field_at d [i, j, k] \<noteq> Malformed \<Longrightarrow> field_at d [i, j, k'] \<noteq> Malformed"
  using malformed_last_three [of d i j k k'] by simp

lemma field_dict: "field_at d (k # ks) \<noteq> Malformed \<Longrightarrow> \<exists>kvs. d = PDict kvs"
  by (cases d) simp_all

lemma field_shorter:
  assumes "field_at d (a # k # ks) \<noteq> Malformed"
  shows "field_at d [a, k'] \<noteq> Malformed"
proof -
  from field_dict [OF assms] obtain top where d: "d = PDict top" by blast
  show ?thesis
  proof (cases "map_of top (PStr a)")
    case None
    with d show ?thesis by simp
  next
    case (Some v)
    with d assms have "field_at v (k # ks) \<noteq> Malformed" by simp
    from field_dict [OF this] Some d show ?thesis by (auto split: option.splits)
  qed
qed

lemma get2_field:
  assumes "field_at d [j, k] \<noteq> Malformed"
  shows "get2 d j k dflt = Inr (value_or (field_at d [j, k]) dflt)"
proof -
  from field_step [OF assms, of dflt] obtain x where "py_get d j (PDict []) = Inr x"
    and "field_at x [k] \<noteq> Malformed"
    and "value_or (field_at x [k]) dflt = value_or (field_at d [j, k]) dflt"
    by blast
  then show ?thesis by (simp add: get2_def field_leaf)
qed

lemma extract_well_nested:
  assumes "well_nested d"
  shows "extract_key_info d = Inr (expected_key_info d)"
proof -
  from assms have rp: "field_at d [''repository'', ''vcs_processed'', ''url''] \<noteq> Malformed"
    and env: "field_at d [''analyzer'', ''environment'', ''ort_version''] \<noteq> Malformed"
    and res: "field_at d [''analyzer'', ''result'', ''issues''] \<noteq> Malformed"
    and cfg: "field_at d [''analyzer'', ''config'', ''enabled_package_managers''] \<noteq> Malformed"
    by (simp_all add: well_nested_def)
  note rp' = field_sibling3 [OF rp, of "''revision''"]
  note prj = field_sibling3 [OF res, of "''projects''"]
  note pkg = field_sibling3 [OF res, of "''packages''"]
  obtain top where d: "d = PDict top" using rp by (cases d) simp_all
  obtain an where an: "py_get d ''analyzer'' (PDict []) = Inr an"
    using d by simp
  obtain r where r: "py_get an ''result'' (PDict []) = Inr r"
    and rm: "field_at r [''issues''] \<noteq> Malformed"
    using field_step [OF res] an field_step [of an "''result''" "''issues''" "[]"] by fastforce
  obtain rep where rep: "py_get d ''repository'' (PDict []) = Inr rep"
    using d by simp
  have an_st: "field_at d [''analyzer'', ''start_time''] \<noteq> Malformed"
    and an_en: "field_at d [''analyzer'', ''end_time''] \<noteq> Malformed"
    using field_shorter [OF res] by blast+
  have 1: "get2 rep ''vcs_processed'' ''url'' (PStr ''N/A'')
      = Inr (value_or (field_at d [''repository'', ''vcs_processed'', ''url'']) (PStr ''N/A''))"
    using field_step [OF rp, of "PStr ''N/A''"] rep by (auto simp: get2_field)
  have 2: "get2 rep ''vcs_processed'' ''revision'' (PStr ''N/A'')
      = Inr (value_or (field_at d [''repository'', ''vcs_processed'', ''revision'']) (PStr ''N/A''))"
    using field_step [OF rp', of "PStr ''N/A''"] rep by (auto simp: get2_field)
  have 3: "get2 an ''environment'' ''ort_version'' (PStr ''N/A'')
      = Inr (value_or (field_at d [''analyzer'', ''environment'', ''ort_version'']) (PStr ''N/A''))"
    using field_step [OF env, of "PStr ''N/A''"] an by (auto simp: get2_field)
  have 4: "py_get an ''start_time'' (PStr ''N/A'')
      = Inr (value_or (field_at d [''analyzer'', ''start_time'']) (PStr ''N/A''))"
    using field_step [OF an_st, of "PStr ''N/A''"] an by (auto simp: field_leaf)
  have 5: "py_get an ''end_time'' (PStr ''N/A'')
      = Inr (value_or (field_at d [''analyzer'', ''end_time'']) (PStr ''N/A''))"
    using field_step [OF an_en, of "PStr ''N/A''"] an by (auto simp: field_leaf)
  have 6: "py_get r ''projects'' (PList [])
      = Inr (value_or (field_at d [''analyzer'', ''result'', ''projects'']) (PList []))"
    using field_step [OF prj, of "PList []"] an r
      field_step [of an "''result''" "''projects''" "[]" "PList []"]
    by (auto simp: field_leaf)
  have 7: "py_get r ''packages'' (PList [])
      = Inr (value_or (field_at d [''analyzer'', ''result'', ''packages'']) (PList []))"
    using field_step [OF pkg, of "PList []"] an r
      field_step [of an "''result''" "''packages''" "[]" "PList []"]
    by (auto simp: field_leaf)
  have 8: "py_get r ''issues'' (PDict [])
      = Inr (value_or (field_at d [''analyzer'', ''result'', ''issues'']) (PDict []))"
    using field_step [OF res, of "PDict []"] an r
      field_step [of an "''result''" "''issues''" "[]" "PDict []"]
    by (auto simp: field_leaf)
  have 9: "get2 an ''config'' ''enabled_package_managers'' (PList [])
      = Inr (value_or (field_at d [''analyzer'', ''config'', ''enabled_package_managers'']) (PList []))"
    using field_step [OF cfg, of "PList []"] an by (auto simp: get2_field)
  show ?thesis
    unfolding extract_key_info_def expected_key_info_def
    by (simp add: an r rep 1 2 3 4 5 6 7 8 9)
qed

text \<open>What sits in a document without a long integer has none either.\<close>

lemma str_ok_lookup:
  assumes "str_ok (PDict kvs)" and "map_of kvs k = Some v"
  shows "str_ok v"
proof -
  from assms(2) have "(k, v) \<in> set kvs" by (rule map_of_SomeD)
  with assms(1) show ?thesis by (auto simp: list_all_iff)
qed

lemma str_ok_field:
  "str_ok d \<Longrightarrow> field_at d path = Present v \<Longrightarrow> str_ok v"
proof (induction path arbitrary: d)
  case Nil
  then show ?case by simp
next
  case (Cons k path)
  from Cons.prems(2) obtain kvs where d: "d = PDict kvs" by (cases d) simp_all
  with Cons.prems(2) obtain x where x: "map_of kvs (PStr k) = Some x"
    and f: "field_at x path = Present v"
    by (auto split: option.splits)
  from Cons.prems(1) d x have "str_ok x" using str_ok_lookup by blast
  from Cons.IH [OF this f] show ?case .
qed

lemma str_ok_value_or:
  assumes "str_ok d" and "str_ok placeholder"
  shows "str_ok (value_or (field_at d path) placeholder)"
proof (cases "field_at d path")
  case (Present v)
  with assms(1) show ?thesis using str_ok_field by simp
qed (simp_all add: assms(2))

lemma format_field:
  assumes "str_ok d" and "str_ok placeholder"
  shows "format_value (value_or (field_at d path) placeholder) = Inr (field_text d path placeholder)"
  using str_ok_value_or [OF assms] by (simp add: format_value_ok field_text_def)

lemma get_field:
  "py_get (PDict kvs) k placeholder = Inr (value_or (field_at (PDict kvs) [k]) placeholder)"
  by (simp split: option.splits)

lemma package_entry_expected:
  assumes "is_dict pkg" and "str_ok pkg"
  shows "package_entry pkg = Inr (expected_package_lines pkg)"
proof -
  from assms(1) obtain kvs where p: "pkg = PDict kvs" by (cases pkg) simp_all
  have "str_ok (PStr ''Unknown'')" "str_ok (PList [PStr ''Unknown''])" "str_ok (PStr ''N/A'')"
    by simp_all
  note f = this [THEN format_field [OF assms(2) [unfolded p]]]
  show ?thesis
    unfolding package_entry_def expected_package_lines_def p get_field
    by (simp add: f del: field_at.simps)
qed

lemma issue_entry_expected:
  assumes "issue_ok issue" and "str_ok issue"
  shows "issue_entry issue = Inr (expected_issue_lines issue)"
proof -
  from assms(1) obtain kvs where i: "issue = PDict kvs"
    by (cases issue) (simp_all add: issue_ok_def)
  from assms(1) obtain m
    where m: "value_or (field_at (PDict kvs) [''message'']) (PStr ''Unknown'') = PStr m"
    unfolding i issue_ok_def
    by (cases "value_or (field_at (PDict kvs) [''message'']) (PStr ''Unknown'')") simp_all
  have "str_ok (PStr ''Unknown'')" by simp
  note f = format_field [OF assms(2) [unfolded i] this]
  show ?thesis
    unfolding issue_entry_def expected_issue_lines_def i get_field
    by (simp add: f m format_value_ok field_text_def del: field_at.simps)
qed

lemma package_loop_expected:
  "list_all (\<lambda>p. is_dict p \<and> str_ok p) ps \<Longrightarrow>
   package_loop ps acc = Inr (acc @ concat (map expected_package_lines ps))"
  by (induction ps arbitrary: acc) (simp_all add: package_entry_expected)

lemma issue_loop_expected:
  "list_all (\<lambda>i. issue_ok i \<and> str_ok i) xs \<Longrightarrow>
   issue_loop xs acc = Inr (acc @ concat (map expected_issue_lines xs))"
  by (induction xs arbitrary: acc) (simp_all add: issue_entry_expected)

lemma project_loop_expected:
  "list_all (\<lambda>item. str_ok (fst item) \<and> str_ok (snd item) \<and> issue_list_ok (snd item)) items \<Longrightarrow>
   project_loop items acc = Inr (acc @ concat (map expected_project_lines items))"
proof (induction items arbitrary: acc)
  case Nil
  then show ?case by simp
next
  case (Cons item items)
  obtain k v where item: "item = (k, v)" by (cases item)
  with Cons.prems have k: "str_ok k" and v: "str_ok v" and l: "issue_list_ok v"
    by simp_all
  from l obtain xs where xs: "v = PList xs" and ok: "list_all issue_ok xs"
    by (cases v) simp_all
  from v xs ok have "list_all (\<lambda>i. issue_ok i \<and> str_ok i) xs"
    by (simp add: list_all_iff)
  note il = issue_loop_expected [OF this]
  from Cons.prems have "list_all (\<lambda>item. str_ok (fst item) \<and> str_ok (snd item)
      \<and> issue_list_ok (snd item)) items"
    by simp
  note ih = Cons.IH [OF this]
  show ?case
    by (simp add: item xs format_value_ok [OF k] il ih expected_project_lines_def)
qed

lemma status_total:
  assumes "expected_shape d"
  shows "\<exists>st. determine_analysis_status d = Inr st"
proof -
  from assms have res: "field_at d [''analyzer'', ''result'', ''issues''] \<noteq> Malformed"
    and pk: "packages_ok (value_or (field_at d [''analyzer'', ''result'', ''packages'']) (PList []))"
    and iss: "issues_ok (value_or (field_at d [''analyzer'', ''result'', ''issues'']) (PDict []))"
    by (simp_all add: expected_shape_def well_nested_def)
  have "extract_key_info d = Inr (expected_key_info d)"
    using assms by (simp add: expected_shape_def extract_well_nested)
  then have i: "bind_exc (analyzer_result d) (\<lambda>r. py_get r ''issues'' (PDict []))
      = Inr (value_or (field_at d [''analyzer'', ''result'', ''issues'']) (PDict []))"
    and p: "bind_exc (analyzer_result d) (\<lambda>r. py_get r ''packages'' (PList []))
      = Inr (value_or (field_at d [''analyzer'', ''result'', ''packages'']) (PList []))"
    by (auto simp: extract_key_info_def expected_key_info_def analyzer_result_def bind_exc_eq_Inr)
  from iss obtain items where
    "value_or (field_at d [''analyzer'', ''result'', ''issues'']) (PDict []) = PDict items"
    by (cases "value_or (field_at d [''analyzer'', ''result'', ''issues'']) (PDict [])") simp_all
  moreover from pk obtain ps where
    "value_or (field_at d [''analyzer'', ''result'', ''packages'']) (PList []) = PList ps"
    by (cases "value_or (field_at d [''analyzer'', ''result'', ''packages'']) (PList [])") simp_all
  ultimately show ?thesis
    by (simp add: status_of_fields [OF i p] and_len_positive_def)
qed

lemma prompt_expected:
  assumes "expected_shape d"
  shows "generate_curation_prompt (expected_key_info d) st = Inr (expected_prompt d st)"
proof -
  let ?projects = "value_or (field_at d [''analyzer'', ''result'', ''projects'']) (PList [])"
  let ?packages = "value_or (field_at d [''analyzer'', ''result'', ''packages'']) (PList [])"
  let ?issues = "value_or (field_at d [''analyzer'', ''result'', ''issues'']) (PDict [])"
  from assms have ok: "str_ok d" and "is_list ?projects" and "packages_ok ?packages"
    and "issues_ok ?issues"
    by (simp_all add: expected_shape_def)
  then obtain prs ps items where prs: "?projects = PList prs"
    and ps: "?packages = PList ps" and dicts: "list_all is_dict (take 10 ps)"
    and items: "?issues = PDict items"
    and lists: "list_all (\<lambda>item. issue_list_ok (snd item)) items"
    by (cases ?projects; cases ?packages; cases ?issues) simp_all
  have na: "str_ok (PStr ''N/A'')" by simp
  note f = format_field [OF ok na]
  have h: "prompt_head (expected_key_info d) st = Inr (expected_opening d st)"
    unfolding prompt_head_def expected_opening_def expected_key_info_def
    by (simp add: f prs ps items del: field_at.simps)
  have "str_ok ?packages" using str_ok_value_or [OF ok] by simp
  with ps dicts have pl: "list_all (\<lambda>p. is_dict p \<and> str_ok p) (take 10 ps)"
    by (auto simp: list_all_iff dest: in_set_takeD)
  have "str_ok ?issues" using str_ok_value_or [OF ok] by simp
  with items lists
  have il: "list_all (\<lambda>item. str_ok (fst item) \<and> str_ok (snd item) \<and> issue_list_ok (snd item)) items"
    by (auto simp: list_all_iff)
  show ?thesis
  proof (cases "st = ''SUCCESS''")
    case True
    with h ps items show ?thesis
      unfolding generate_curation_prompt_def expected_prompt_def
      by (simp add: expected_key_info_def package_loop_expected [OF pl] del: field_at.simps)
  next
    case False
    with h ps items show ?thesis
      unfolding generate_curation_prompt_def expected_prompt_def
      by (simp add: expected_key_info_def project_loop_expected [OF il] del: field_at.simps)
  qed
qed

lemma doc_packages_shape: "expected_shape doc_packages"
  by (simp add: expected_shape_def well_nested_def doc_packages_def)

lemma doc_packages_prompt: "expected_prompt doc_packages ''SUCCESS'' = prompt_packages"
  by (simp add: expected_prompt_def expected_opening_def expected_package_lines_def
      field_text_def doc_packages_def prompt_packages_def digit_def repr_str_def
      repr_char_def printable_def backslash_def Let_def)

text \<open>
  C6. Missing fields do not raise and are replaced by placeholders, in the key
  information and in the prompt. For a well nested document the extraction returns,
  field by field, the value that is present or else \<open>N/A\<close>, the empty list or the
  empty mapping. For a document whose present fields have the expected shapes,
  extraction and classification return and the prompt is the expected one: the text
  of each field where it is present, and \<open>N/A\<close>, \<open>Unknown\<close> or \<open>['Unknown']\<close>
  where it is absent. So is each entry on its own: that of a package for a missing
  id, licenses and homepage, that of an issue for a missing severity, source and
  message.
\<close>

theorem missing_fields_get_placeholders:
  "(well_nested d \<longrightarrow>
      extract_key_info d = Inr
        \<lparr>repository_url =
           value_or (field_at d [''repository'', ''vcs_processed'', ''url'']) (PStr ''N/A''),
         revision =
           value_or (field_at d [''repository'', ''vcs_processed'', ''revision'']) (PStr ''N/A''),
         ort_version =
           value_or (field_at d [''analyzer'', ''environment'', ''ort_version'']) (PStr ''N/A''),
         scan_time =
           \<lparr>start = value_or (field_at d [''analyzer'', ''start_time'']) (PStr ''N/A''),
            end' = value_or (field_at d [''analyzer'', ''end_time'']) (PStr ''N/A'')\<rparr>,
         projects = value_or (field_at d [''analyzer'', ''result'', ''projects'']) (PList []),
         packages = value_or (field_at d [''analyzer'', ''result'', ''packages'']) (PList []),
         issues = value_or (field_at d [''analyzer'', ''result'', ''issues'']) (PDict []),
         package_managers =
           value_or (field_at d [''analyzer'', ''config'', ''enabled_package_managers'']) (PList [])\<rparr>)
   \<and> (expected_shape d \<longrightarrow>
        (\<exists>ki st. extract_key_info d = Inr ki \<and> determine_analysis_status d = Inr st
           \<and> generate_curation_prompt ki st = Inr (expected_prompt d st)))
   \<and> (str_ok (PDict kvs) \<longrightarrow>
        package_entry (PDict kvs) =
        Inr (''\<newline>- '' @ py_str (value_or (field_at (PDict kvs) [''id'']) (PStr ''Unknown''))
          @ ''\<newline>  License: ''
          @ py_str (value_or (field_at (PDict kvs) [''declared_licenses'']) (PList [PStr ''Unknown'']))
          @ ''\<newline>  Homepage: ''
          @ py_str (value_or (field_at (PDict kvs) [''homepage_url'']) (PStr ''N/A''))))
   \<and> (\<forall>m. str_ok (PDict ivs)
          \<and> value_or (field_at (PDict ivs) [''message'']) (PStr ''Unknown'') = PStr m \<longrightarrow>
        issue_entry (PDict ivs) =
          Inr (''\<newline>- Severity: ''
            @ py_str (value_or (field_at (PDict ivs) [''severity'']) (PStr ''Unknown''))
            @ ''\<newline>- Source: ''
            @ py_str (value_or (field_at (PDict ivs) [''source'']) (PStr ''Unknown''))
            @ ''\<newline>- Message: '' @ take 500 m @ ''...''))"
proof (intro conjI allI impI)
  assume "well_nested d"
  then show "extract_key_info d = Inr
        \<lparr>repository_url =
           value_or (field_at d [''repository'', ''vcs_processed'', ''url'']) (PStr ''N/A''),
         revision =
           value_or (field_at d [''repository'', ''vcs_processed'', ''revision'']) (PStr ''N/A''),
         ort_version =
           value_or (field_at d [''analyzer'', ''environment'', ''ort_version'']) (PStr ''N/A''),
         scan_time =
           \<lparr>start = value_or (field_at d [''analyzer'', ''start_time'']) (PStr ''N/A''),
            end' = value_or (field_at d [''analyzer'', ''end_time'']) (PStr ''N/A'')\<rparr>,
         projects = value_or (field_at d [''analyzer'', ''result'', ''projects'']) (PList []),
         packages = value_or (field_at d [''analyzer'', ''result'', ''packages'']) (PList []),
         issues = value_or (field_at d [''analyzer'', ''result'', ''issues'']) (PDict []),
         package_managers =
           value_or (field_at d [''analyzer'', ''config'', ''enabled_package_managers'']) (PList [])\<rparr>"
    using extract_well_nested [of d] by (simp add: expected_key_info_def)
next
  assume s: "expected_shape d"
  then have "extract_key_info d = Inr (expected_key_info d)"
    by (simp add: expected_shape_def extract_well_nested)
  moreover from status_total [OF s] obtain st where "determine_analysis_status d = Inr st"
    by blast
  ultimately show "\<exists>ki st. extract_key_info d = Inr ki \<and> determine_analysis_status d = Inr st
           \<and> generate_curation_prompt ki st = Inr (expected_prompt d st)"
    using prompt_expected [OF s] by blast
next
  assume "str_ok (PDict kvs)"
  then show "package_entry (PDict kvs) =
        Inr (''\<newline>- '' @ py_str (value_or (field_at (PDict kvs) [''id'']) (PStr ''Unknown''))
          @ ''\<newline>  License: ''
          @ py_str (value_or (field_at (PDict kvs) [''declared_licenses'']) (PList [PStr ''Unknown'']))
          @ ''\<newline>  Homepage: ''
          @ py_str (value_or (field_at (PDict kvs) [''homepage_url'']) (PStr ''N/A'')))"
    using package_entry_expected [of "PDict kvs"]
    by (simp add: expected_package_lines_def field_text_def del: field_at.simps)
next
  fix m
  assume a: "str_ok (PDict ivs)
          \<and> value_or (field_at (PDict ivs) [''message'']) (PStr ''Unknown'') = PStr m"
  then have "issue_ok (PDict ivs)" by (simp add: issue_ok_def del: field_at.simps)
  with a show "issue_entry (PDict ivs) =
          Inr (''\<newline>- Severity: ''
            @ py_str (value_or (field_at (PDict ivs) [''severity'']) (PStr ''Unknown''))
            @ ''\<newline>- Source: ''
            @ py_str (value_or (field_at (PDict ivs) [''source'']) (PStr ''Unknown''))
            @ ''\<newline>- Message: '' @ take 500 m @ ''...'')"
    using issue_entry_expected [of "PDict ivs"]
    by (simp add: expected_issue_lines_def field_text_def del: field_at.simps)
qed

theorem missing_fields_get_placeholders_witness:
  "well_nested doc_packages \<and> expected_shape doc_packages
   \<and> field_at doc_packages [''analyzer'', ''environment'', ''ort_version''] = Absent
   \<and> field_at doc_packages [''analyzer'', ''start_time''] = Absent
   \<and> (\<exists>ki. extract_key_info doc_packages = Inr ki \<and> ort_version ki = PStr ''N/A''
        \<and> start (scan_time ki) = PStr ''N/A'' \<and> projects ki = PList []
        \<and> determine_analysis_status doc_packages = Inr ''SUCCESS''
        \<and> generate_curation_prompt ki ''SUCCESS'' = Inr prompt_packages)
   \<and> package_entry (PDict [(PStr ''id'', PStr ''Maven:org.b:b:2.0'')])
       = Inr ''\<newline>- Maven:org.b:b:2.0\<newline>  License: ['Unknown']\<newline>  Homepage: N/A''
   \<and> issue_entry (PDict [(PStr ''severity'', PStr ''ERROR'')])
       = Inr ''\<newline>- Severity: ERROR\<newline>- Source: Unknown\<newline>- Message: Unknown...''"
proof -
  note a = missing_fields_get_placeholders
    [of doc_packages "[(PStr ''id'', PStr ''Maven:org.b:b:2.0'')]"
        "[(PStr ''severity'', PStr ''ERROR'')]"]
  have w: "well_nested doc_packages"
    by (simp add: well_nested_def doc_packages_def)
  note s = doc_packages_shape
  have f: "field_at doc_packages [''analyzer'', ''environment'', ''ort_version''] = Absent"
    "field_at doc_packages [''analyzer'', ''start_time''] = Absent"
    by (simp_all add: doc_packages_def)
  from a s obtain ki st where k: "extract_key_info doc_packages = Inr ki"
    and r: "determine_analysis_status doc_packages = Inr st"
      "generate_curation_prompt ki st = Inr (expected_prompt doc_packages st)"
    by blast
  from r(1) have st: "st = ''SUCCESS''" by (simp add: doc_packages_status)
  from a w k have "ort_version ki = PStr ''N/A''" and "start (scan_time ki) = PStr ''N/A''"
    and "projects ki = PList []"
    by (auto simp: doc_packages_def)
  with k r st have 1: "\<exists>ki. extract_key_info doc_packages = Inr ki \<and> ort_version ki = PStr ''N/A''
        \<and> start (scan_time ki) = PStr ''N/A'' \<and> projects ki = PList []
        \<and> determine_analysis_status doc_packages = Inr ''SUCCESS''
        \<and> generate_curation_prompt ki ''SUCCESS'' = Inr prompt_packages"
    by (auto simp: doc_packages_prompt)
  from a have 2: "package_entry (PDict [(PStr ''id'', PStr ''Maven:org.b:b:2.0'')])
       = Inr ''\<newline>- Maven:org.b:b:2.0\<newline>  License: ['Unknown']\<newline>  Homepage: N/A''"
    by (simp add: repr_str_def repr_char_def printable_def backslash_def Let_def)
  from a have 3: "issue_entry (PDict [(PStr ''severity'', PStr ''ERROR'')])
       = Inr ''\<newline>- Severity: ERROR\<newline>- Source: Unknown\<newline>- Message: Unknown...''"
    by simp
  from w s f 1 2 3 show ?thesis by blast
qed

end
